theory Spec2Isabelle
  imports Main
begin

section \<open>Python string primitives\<close>

text \<open>
  The extraction scripts work on Python \<open>str\<close> values. They are modelled as \<open>string\<close>
  (lists of 8-bit characters); the model covers ASCII text, which is what the manual's
  command syntax consists of. Whitespace is what \<open>str.isspace\<close>, \<open>str.strip\<close>,
  \<open>str.split()\<close> and the regular expression class \<open>\s\<close> accept in that range.
\<close>

definition isspace :: "char \<Rightarrow> bool" where
  "isspace c \<longleftrightarrow> c \<in> set [CHR 0x09, CHR 0x0A, CHR 0x0B, CHR 0x0C, CHR 0x0D,
                             CHR 0x1C, CHR 0x1D, CHR 0x1E, CHR 0x1F, CHR '' '']"

definition lstrip :: "string \<Rightarrow> string" where
  "lstrip s = dropWhile isspace s"

definition rstrip :: "string \<Rightarrow> string" where
  "rstrip s = rev (dropWhile isspace (rev s))"

definition strip :: "string \<Rightarrow> string" where
  "strip s = rstrip (lstrip s)"

definition ascii_lowercase :: string where
  "ascii_lowercase = ''abcdefghijklmnopqrstuvwxyz''"

definition ascii_uppercase :: string where
  "ascii_uppercase = ''ABCDEFGHIJKLMNOPQRSTUVWXYZ''"

definition digits :: string where
  "digits = ''0123456789''"

definition upper_char :: "char \<Rightarrow> char" where
  "upper_char c = (case map_of (zip ascii_lowercase ascii_uppercase) c of
                     None \<Rightarrow> c | Some u \<Rightarrow> u)"

definition lower_char :: "char \<Rightarrow> char" where
  "lower_char c = (case map_of (zip ascii_uppercase ascii_lowercase) c of
                     None \<Rightarrow> c | Some l \<Rightarrow> l)"

definition upper :: "string \<Rightarrow> string" where
  "upper s = map upper_char s"

definition lower :: "string \<Rightarrow> string" where
  "lower s = map lower_char s"

definition isdigit :: "char \<Rightarrow> bool" where
  "isdigit c \<longleftrightarrow> c \<in> set digits"

definition is_upper_char :: "char \<Rightarrow> bool" where
  "is_upper_char c \<longleftrightarrow> c \<in> set ascii_uppercase"

definition is_lower_char :: "char \<Rightarrow> bool" where
  "is_lower_char c \<longleftrightarrow> c \<in> set ascii_lowercase"

definition isalpha :: "char \<Rightarrow> bool" where
  "isalpha c \<longleftrightarrow> is_upper_char c \<or> is_lower_char c"

text \<open>\<open>s.startswith(sub)\<close>.\<close>

fun startswith :: "string \<Rightarrow> string \<Rightarrow> bool" where
  "startswith s [] = True"
| "startswith [] (p # ps) = False"
| "startswith (c # cs) (p # ps) = (c = p \<and> startswith cs ps)"

definition endswith :: "string \<Rightarrow> string \<Rightarrow> bool" where
  "endswith s suf = startswith (rev s) (rev suf)"

text \<open>\<open>s.find(sub)\<close>: the lowest index at which \<open>sub\<close> occurs, \<open>None\<close> for Python's \<open>-1\<close>.\<close>

fun str_find :: "string \<Rightarrow> string \<Rightarrow> nat option" where
  "str_find [] sub = (if sub = [] then Some 0 else None)"
| "str_find (c # cs) sub =
     (if startswith (c # cs) sub then Some 0 else map_option Suc (str_find cs sub))"

text \<open>\<open>s.find(sub, start)\<close> for a start index within the string.\<close>

definition str_find_from :: "string \<Rightarrow> string \<Rightarrow> nat \<Rightarrow> nat option" where
  "str_find_from s sub start =
     (if length s < start then None
      else map_option (\<lambda>i. i + start) (str_find (drop start s) sub))"

text \<open>\<open>sub in s\<close>.\<close>

definition contains :: "string \<Rightarrow> string \<Rightarrow> bool" where
  "contains s sub \<longleftrightarrow> str_find s sub \<noteq> None"

text \<open>
  \<open>s.count(sub)\<close> counts non-overlapping occurrences from left to right: after an
  occurrence the scan resumes behind it. \<open>count_from k\<close> skips \<open>k\<close> characters first.
\<close>

fun count_from :: "nat \<Rightarrow> string \<Rightarrow> string \<Rightarrow> nat" where
  "count_from k [] sub = 0"
| "count_from (Suc k) (c # cs) sub = count_from k cs sub"
| "count_from 0 (c # cs) sub =
     (if startswith (c # cs) sub then Suc (count_from (length sub - 1) cs sub)
      else count_from 0 cs sub)"

definition str_count :: "string \<Rightarrow> string \<Rightarrow> nat" where
  "str_count s sub = (if sub = [] then length s + 1 else count_from 0 s sub)"

text \<open>\<open>s.split()\<close>: the maximal runs of non-whitespace characters.\<close>

fun split_ws_acc :: "string \<Rightarrow> string \<Rightarrow> string list" where
  "split_ws_acc w [] = (if w = [] then [] else [rev w])"
| "split_ws_acc w (c # cs) =
     (if isspace c then (if w = [] then split_ws_acc [] cs else rev w # split_ws_acc [] cs)
      else split_ws_acc (c # w) cs)"

definition split_ws :: "string \<Rightarrow> string list" where
  "split_ws s = split_ws_acc [] s"

text \<open>\<open>s.split(sep)\<close> for a single separator character; the result is never empty.\<close>

fun split_char_acc :: "char \<Rightarrow> string \<Rightarrow> string \<Rightarrow> string list" where
  "split_char_acc sep w [] = [rev w]"
| "split_char_acc sep w (c # cs) =
     (if c = sep then rev w # split_char_acc sep [] cs else split_char_acc sep (c # w) cs)"

definition split_char :: "char \<Rightarrow> string \<Rightarrow> string list" where
  "split_char sep s = split_char_acc sep [] s"

text \<open>\<open>sep.join(xs)\<close>.\<close>

fun join :: "string \<Rightarrow> string list \<Rightarrow> string" where
  "join sep [] = []"
| "join sep [x] = x"
| "join sep (x # y # ys) = x @ sep @ join sep (y # ys)"

text \<open>\<open>str(i)\<close> for a natural number.\<close>

fun str_nat :: "nat \<Rightarrow> string" where
  "str_nat n = (if n < 10 then [digits ! n] else str_nat (n div 10) @ [digits ! (n mod 10)])"

declare str_nat.simps [simp del]

section \<open>Regular expressions used by the scripts\<close>

text \<open>
  A pattern that consumes a fixed number of characters is a list of character predicates.
  \<open>re.search\<close> with such a pattern succeeds iff the pattern matches at some position.
  With \<open>re.IGNORECASE\<close> a literal character and a class member match in either case.
\<close>

type_synonym atom = "char \<Rightarrow> bool"

definition ci :: "char \<Rightarrow> atom" where
  "ci p = (\<lambda>c. upper_char c = upper_char p)"

definition ci_class :: "string \<Rightarrow> atom" where
  "ci_class ps = (\<lambda>c. upper_char c \<in> upper_char ` set ps)"

definition lit_ci :: "string \<Rightarrow> atom list" where
  "lit_ci w = map ci w"

fun match_here :: "atom list \<Rightarrow> string \<Rightarrow> bool" where
  "match_here [] s = True"
| "match_here (p # ps) [] = False"
| "match_here (p # ps) (c # cs) = (p c \<and> match_here ps cs)"

fun re_search :: "atom list \<Rightarrow> string \<Rightarrow> bool" where
  "re_search pat [] = match_here pat []"
| "re_search pat (c # cs) = (match_here pat (c # cs) \<or> re_search pat cs)"

subsection \<open>Backtracking patterns\<close>

text \<open>
  The other patterns have quantifiers, alternatives and groups. A matcher lists the ways
  a pattern piece can consume a prefix of the text, as pairs (matched text, remaining
  text), in the order Python's backtracking engine tries them: a greedy quantifier tries
  the longest run first, a lazy one the shortest, alternatives go left to right. A
  pattern is a list comprehension over its pieces; its first element is the match that
  \<open>re.match\<close> reports. \<open>.\<close> is any character but a newline, \<open>$\<close> holds at the end of
  the text or before a final newline.
\<close>

type_synonym matcher = "string \<Rightarrow> (string \<times> string) list"

definition splits :: "string \<Rightarrow> nat list \<Rightarrow> (string \<times> string) list" where
  "splits s ks = map (\<lambda>k. (take k s, drop k s)) ks"

definition plus_greedy :: "atom \<Rightarrow> matcher" where
  "plus_greedy P s = splits s (rev [1..<Suc (length (takeWhile P s))])"

definition star_greedy :: "atom \<Rightarrow> matcher" where
  "star_greedy P s = splits s (rev [0..<Suc (length (takeWhile P s))])"

definition plus_lazy :: "atom \<Rightarrow> matcher" where
  "plus_lazy P s = splits s [1..<Suc (length (takeWhile P s))]"

definition one :: "atom \<Rightarrow> matcher" where
  "one P s = (case s of [] \<Rightarrow> [] | c # cs \<Rightarrow> if P c then [([c], cs)] else [])"

definition word_ci :: "string \<Rightarrow> matcher" where
  "word_ci w s = (if match_here (lit_ci w) s then [(take (length w) s, drop (length w) s)] else [])"

definition alt_ci :: "string list \<Rightarrow> matcher" where
  "alt_ci ws s = concat (map (\<lambda>w. word_ci w s) ws)"

definition optional :: "matcher \<Rightarrow> matcher" where
  "optional m s = m s @ [([], s)]"

definition dot :: atom where
  "dot c \<longleftrightarrow> c \<noteq> CHR 0x0A"

definition at_end :: "string \<Rightarrow> bool" where
  "at_end r \<longleftrightarrow> r = [] \<or> r = [CHR 0x0A]"

text \<open>
  \<open>re.search\<close>: the first position, from the left, at which the pattern matches, with
  what the pattern reports there.
\<close>

fun search_from :: "(string \<Rightarrow> 'a list) \<Rightarrow> nat \<Rightarrow> string \<Rightarrow> (nat \<times> 'a) option" where
  "search_from m i [] = (case m [] of [] \<Rightarrow> None | x # xs \<Rightarrow> Some (i, x))"
| "search_from m i (c # cs) =
     (case m (c # cs) of [] \<Rightarrow> search_from m (Suc i) cs | x # xs \<Rightarrow> Some (i, x))"

section \<open>Wildcard expansion\<close>

text \<open>
  \<open>expand_wildcards\<close> of \<open>extract_scpi_from_word_font_aware.py\<close> (the copy in
  \<open>extract_scpi_from_word_font_aware_MSO.py\<close> is identical). \<open>family p n\<close> is
  \<open>[f"{p}{i}" for i in range(1, n)]\<close>; \<open>indexed p\<close> is the pattern \<open>p<[xn]>\<close>.
\<close>

definition family :: "string \<Rightarrow> nat \<Rightarrow> string list" where
  "family p n = map (\<lambda>i. p @ str_nat i) [1..<n]"

definition indexed :: "string \<Rightarrow> atom list" where
  "indexed p = lit_ci p @ lit_ci ''<'' @ [ci_class ''xn''] @ lit_ci ''>''"

definition nr123 :: "atom list" where
  "nr123 = lit_ci ''<NR'' @ [ci_class ''123''] @ lit_ci ''>''"

text \<open>One iteration of the loop body: the entries that one option appends.\<close>

definition expand_option :: "string \<Rightarrow> string list" where
  "expand_option opt0 =
     (let opt = strip opt0 in
      if opt = [] then []
      else if re_search (indexed ''CH'') opt then family ''CH'' 9
      else if re_search (indexed ''MATH'') opt then family ''MATH'' 5
      else if re_search (indexed ''REF'') opt then family ''REF'' 5
      else if re_search (indexed ''BUS'') opt \<or> re_search (indexed ''B'') opt
        then family (if contains opt ''B<'' then ''B'' else ''BUS'') 9
      else if re_search (indexed ''MEAS'') opt then family ''MEAS'' 9
      else if re_search (indexed ''SEARCH'') opt then family ''SEARCH'' 9
      else if re_search (indexed ''PLOT'') opt then family ''PLOT'' 5
      else if re_search nr123 opt \<or> re_search (lit_ci ''<QString>'') opt then []
      else [opt])"

text \<open>
  \<open>[x for x in expanded if not (x in seen or seen.add(x))]\<close>: keep the first occurrence
  of every entry.
\<close>

fun dedup_seen :: "'a list \<Rightarrow> 'a list \<Rightarrow> 'a list" where
  "dedup_seen seen [] = []"
| "dedup_seen seen (x # xs) =
     (if x \<in> set seen then dedup_seen seen xs else x # dedup_seen (x # seen) xs)"

definition expand_wildcards :: "string list \<Rightarrow> string list" where
  "expand_wildcards option_list =
     take 50 (dedup_seen [] (concat (map expand_option option_list)))"

section \<open>Command index\<close>

text \<open>
  \<open>COMMAND_GROUPS\<close> comes from the module \<open>command_groups_mapping\<close>, which is a generated
  table and a parameter here: the groups in dictionary order, each with its name and its
  \<open>"commands"\<close> list. \<open>ALL_COMMANDS\<close> and \<open>COMMAND_TO_GROUP\<close> are built from it as at the
  top of \<open>extract_fast.py\<close>; a command listed in two groups keeps the later group.
\<close>

type_synonym command_groups = "(string \<times> string list) list"

definition ALL_COMMANDS :: "command_groups \<Rightarrow> string list" where
  "ALL_COMMANDS cg = concat (map snd cg)"

definition COMMAND_TO_GROUP :: "command_groups \<Rightarrow> string \<rightharpoonup> string" where
  "COMMAND_TO_GROUP cg =
     fold (\<lambda>(group_name, cmds) m. fold (\<lambda>cmd m. m(cmd \<mapsto> group_name)) cmds m) cg Map.empty"

text \<open>\<open>re.sub(r'\d+', '<x>', s)\<close>: every maximal run of digits becomes \<open><x>\<close>.\<close>

fun sub_digits_run :: "bool \<Rightarrow> string \<Rightarrow> string" where
  "sub_digits_run in_run [] = []"
| "sub_digits_run in_run (c # cs) =
     (if isdigit c then (if in_run then sub_digits_run True cs
                         else ''<x>'' @ sub_digits_run True cs)
      else c # sub_digits_run False cs)"

definition sub_digits :: "string \<Rightarrow> string" where
  "sub_digits s = sub_digits_run False s"

text \<open>\<open>is_command_in_master_list\<close> of \<open>extract_fast.py\<close>.\<close>

definition is_command_in_master_list :: "command_groups \<Rightarrow> string \<Rightarrow> string option" where
  "is_command_in_master_list cg text =
     (if text = [] then None
      else let text_upper = strip (upper text) in
        case List.find (\<lambda>c. upper c = text_upper) (ALL_COMMANDS cg) of
          Some c \<Rightarrow> Some c
        | None \<Rightarrow>
            let pattern_text = sub_digits text_upper in
            List.find (\<lambda>cmd. pattern_text = upper cmd) (ALL_COMMANDS cg))"

section \<open>The section state machine of \<open>extract_fast.py\<close>\<close>

text \<open>
  A command record is the dictionary created at a header. All its keys are present from
  creation on, so it is a record; a value that may be \<open>None\<close> is an option. The key
  \<open>"syntax"\<close> is the field \<open>cmd_syntax\<close>. \<open>truthy\<close> is Python's truth value of such a
  field: \<open>None\<close>, \<open>""\<close> and \<open>[]\<close> are false.
\<close>

record example =
  ex_scpi :: string
  ex_description :: string

record cmd =
  scpi :: string
  description :: "string option"
  conditions :: "string option"
  group :: "string option"
  cmd_syntax :: "string list"
  relatedCommands :: "string list option"
  arguments :: "string option"
  examples :: "example list option"
  returns :: "string option"
  notes_list :: "string list"

datatype section_state =
  SEARCHING | DESCRIPTION | CONDITIONS | GROUP | SYNTAX | ARGUMENTS | EXAMPLES | RETURNS | RELATED

record parser =
  commands :: "(string \<times> cmd) list"
  current_cmd :: "cmd option"
  state :: section_state
  buffer :: "string list"

definition truthy :: "'a list option \<Rightarrow> bool" where
  "truthy v = (case v of None \<Rightarrow> False | Some x \<Rightarrow> x \<noteq> [])"

definition or_empty :: "'a list option \<Rightarrow> 'a list" where
  "or_empty v = (case v of None \<Rightarrow> [] | Some x \<Rightarrow> x)"

text \<open>The dictionary \<open>commands\<close> keeps insertion order; assigning to a present key keeps its place.\<close>

fun dict_set :: "'k \<Rightarrow> 'v \<Rightarrow> ('k \<times> 'v) list \<Rightarrow> ('k \<times> 'v) list" where
  "dict_set k v [] = [(k, v)]"
| "dict_set k v (kv # kvs) = (if fst kv = k then (k, v) # kvs else kv # dict_set k v kvs)"

definition clean_text :: "string list \<Rightarrow> string" where
  "clean_text buf = join [CHR 0x0A] (filter (\<lambda>l. l \<noteq> []) (map strip buf))"

subsection \<open>Splitting an example line\<close>

text \<open>\<open>re.split(r'\s+might\s+return\s+', line, maxsplit=1, flags=re.IGNORECASE)\<close>\<close>

definition might_return_pattern :: "string \<Rightarrow> string list" where
  "might_return_pattern s =
     [r5. (w1, r1) \<leftarrow> plus_greedy isspace s, (m, r2) \<leftarrow> word_ci ''might'' r1,
          (w2, r3) \<leftarrow> plus_greedy isspace r2, (r, r4) \<leftarrow> word_ci ''return'' r3,
          (w3, r5) \<leftarrow> plus_greedy isspace r4]"

definition split_might_return :: "string \<Rightarrow> string list" where
  "split_might_return line =
     (case search_from might_return_pattern 0 line of
        None \<Rightarrow> [line]
      | Some (i, rest) \<Rightarrow> [take i line, rest])"

text \<open>\<open>re.match(r'^(.+?)\s+(sets|queries|returns|indicates|specifies)\s+(.+)$', line, re.IGNORECASE)\<close>\<close>

definition verb_pattern :: "string \<Rightarrow> (string \<times> string \<times> string) list" where
  "verb_pattern s =
     [(g1, g2, g3). (g1, r1) \<leftarrow> plus_lazy dot s, (w1, r2) \<leftarrow> plus_greedy isspace r1,
          (g2, r3) \<leftarrow> alt_ci [''sets'', ''queries'', ''returns'', ''indicates'', ''specifies''] r2,
          (w2, r4) \<leftarrow> plus_greedy isspace r3, (g3, r5) \<leftarrow> plus_greedy dot r4, at_end r5]"

text \<open>\<open>re.match(r'^([A-Z0-9:<>?\s\-_]+?)\s+([a-z].*)$', line)\<close>\<close>

definition scpi_char :: atom where
  "scpi_char c \<longleftrightarrow> is_upper_char c \<or> isdigit c \<or> c \<in> set '':<>?-_'' \<or> isspace c"

definition lowercase_pattern :: "string \<Rightarrow> (string \<times> string) list" where
  "lowercase_pattern s =
     [(g1, a @ b). (g1, r1) \<leftarrow> plus_lazy scpi_char s, (w1, r2) \<leftarrow> plus_greedy isspace r1,
          (a, r3) \<leftarrow> one is_lower_char r2, (b, r4) \<leftarrow> star_greedy dot r3, at_end r4]"

text \<open>The body of the loop over the buffered example lines in \<open>save_current_section\<close>.\<close>

definition parse_example :: "string \<Rightarrow> example" where
  "parse_example line =
     (case (if contains (lower line) ''might return'' then split_might_return line else []) of
        [scpi_part, desc] \<Rightarrow>
          \<lparr>ex_scpi = strip scpi_part, ex_description = ''might return '' @ strip desc\<rparr>
      | _ \<Rightarrow>
          (case verb_pattern line of
             (g1, g2, g3) # ms \<Rightarrow> \<lparr>ex_scpi = strip g1, ex_description = g2 @ '' '' @ g3\<rparr>
           | [] \<Rightarrow>
               (case lowercase_pattern line of
                  (g1, g2) # ms \<Rightarrow> \<lparr>ex_scpi = strip g1, ex_description = strip g2\<rparr>
                | [] \<Rightarrow> \<lparr>ex_scpi = line, ex_description = []\<rparr>)))"

subsection \<open>\<open>save_current_section\<close>\<close>

text \<open>
  What \<open>save_current_section\<close> does to the open record, by the current section. In the
  state \<open>SEARCHING\<close> no branch applies.
\<close>

definition save_section :: "command_groups \<Rightarrow> section_state \<Rightarrow> string list \<Rightarrow> cmd \<Rightarrow> cmd" where
  "save_section cg st buf c =
     (let text_content = clean_text buf in
      case st of
        DESCRIPTION \<Rightarrow> c\<lparr>description := Some text_content\<rparr>
      | CONDITIONS \<Rightarrow> c\<lparr>conditions := Some text_content\<rparr>
      | GROUP \<Rightarrow>
          (let first_line = (case buf of [] \<Rightarrow> [] | l # ls \<Rightarrow> strip l);
               mapped = COMMAND_TO_GROUP cg (scpi c)
           in c\<lparr>group := Some (if truthy mapped then or_empty mapped else first_line)\<rparr>)
      | SYNTAX \<Rightarrow>
          (let syntax_lines = filter (\<lambda>l. l \<noteq> []) (map strip buf)
           in if syntax_lines \<noteq> [] then c\<lparr>cmd_syntax := cmd_syntax c @ syntax_lines\<rparr> else c)
      | ARGUMENTS \<Rightarrow> c\<lparr>arguments := Some text_content\<rparr>
      | EXAMPLES \<Rightarrow>
          (if buf \<noteq> []
           then c\<lparr>examples := Some ((if truthy (examples c) then or_empty (examples c) else [])
                     @ map parse_example (filter (\<lambda>l. l \<noteq> []) (map strip buf)))\<rparr>
           else c)
      | RETURNS \<Rightarrow> c\<lparr>returns := Some text_content\<rparr>
      | RELATED \<Rightarrow>
          (let related = filter (\<lambda>w. is_command_in_master_list cg w \<noteq> None)
                           (map strip (split_ws text_content))
           in if related \<noteq> [] then c\<lparr>relatedCommands := Some related\<rparr> else c)
      | SEARCHING \<Rightarrow> c)"

definition save_current_section :: "command_groups \<Rightarrow> parser \<Rightarrow> parser" where
  "save_current_section cg p =
     (case current_cmd p of
        None \<Rightarrow> p
      | Some c \<Rightarrow> p\<lparr>current_cmd := Some (save_section cg (state p) (buffer p) c), buffer := []\<rparr>)"

subsection \<open>\<open>finalize_command\<close>\<close>

text \<open>\<open>COMMAND_TO_GROUP.get(key, "Miscellaneous")\<close>\<close>

definition index_group :: "command_groups \<Rightarrow> string \<Rightarrow> string" where
  "index_group cg k = (case COMMAND_TO_GROUP cg k of None \<Rightarrow> ''Miscellaneous'' | Some g \<Rightarrow> g)"

text \<open>The group assignment and the normalisation of empty values to \<open>None\<close>.\<close>

definition none_if_falsy :: "'a list option \<Rightarrow> 'a list option" where
  "none_if_falsy v = (if truthy v then v else None)"

definition normalize_cmd :: "command_groups \<Rightarrow> cmd \<Rightarrow> cmd" where
  "normalize_cmd cg c =
     c\<lparr>group := Some (index_group cg (scpi c)),
       relatedCommands := none_if_falsy (relatedCommands c),
       conditions := none_if_falsy (conditions c),
       returns := none_if_falsy (returns c),
       examples := none_if_falsy (examples c),
       arguments := none_if_falsy (arguments c)\<rparr>"

text \<open>
  The merge of a record into the stored record of the same key: a key of the list
  \<open>description, group, arguments, examples, conditions, returns\<close> is copied when the stored
  value is empty and the new one is not; the new syntax lines that the stored list does
  not have are appended. \<open>relatedCommands\<close> and \<open>notes\<close> (the field \<open>notes_list\<close>) are not touched.
\<close>

definition absorb :: "'a list option \<Rightarrow> 'a list option \<Rightarrow> 'a list option" where
  "absorb existing_v current_v =
     (if \<not> truthy existing_v \<and> truthy current_v then current_v else existing_v)"

definition merge_existing :: "cmd \<Rightarrow> cmd \<Rightarrow> cmd" where
  "merge_existing existing cur =
     existing\<lparr>description := absorb (description existing) (description cur),
              group := absorb (group existing) (group cur),
              arguments := absorb (arguments existing) (arguments cur),
              examples := absorb (examples existing) (examples cur),
              conditions := absorb (conditions existing) (conditions cur),
              returns := absorb (returns existing) (returns cur),
              cmd_syntax :=
                (if cmd_syntax cur \<noteq> []
                 then cmd_syntax existing
                      @ filter (\<lambda>s. s \<notin> set (cmd_syntax existing)) (cmd_syntax cur)
                 else cmd_syntax existing)\<rparr>"

definition store :: "cmd \<Rightarrow> (string \<times> cmd) list \<Rightarrow> (string \<times> cmd) list" where
  "store c cmds =
     (case map_of cmds (scpi c) of
        Some existing \<Rightarrow> dict_set (scpi c) (merge_existing existing c) cmds
      | None \<Rightarrow> dict_set (scpi c) c cmds)"

definition finalize_command :: "command_groups \<Rightarrow> parser \<Rightarrow> parser" where
  "finalize_command cg p =
     (case current_cmd p of
        None \<Rightarrow> p
      | Some c \<Rightarrow>
          \<lparr>commands = store (normalize_cmd cg (save_section cg (state p) (buffer p) c)) (commands p),
           current_cmd = None, state = SEARCHING, buffer = []\<rparr>)"

subsection \<open>The paragraph loop\<close>

text \<open>
  The document loader supplies the paragraphs. A run carries its text, the font name set
  on the run (\<open>run.font.name\<close>), the font name of its character style
  (\<open>run.style.font.name\<close>) and whether \<open>run.bold\<close> is true; a paragraph carries its
  text, its runs and whether its paragraph style is bold.
\<close>

record run =
  run_text :: string
  font_name :: "string option"
  style_font_name :: "string option"
  run_bold :: bool

record docx_paragraph =
  para_text :: string
  runs :: "run list"
  style_bold :: bool

definition get_font_name :: "run \<Rightarrow> string option" where
  "get_font_name r =
     (if truthy (font_name r) then font_name r
      else if truthy (style_font_name r) then style_font_name r
      else None)"

definition is_tahoma :: "run \<Rightarrow> bool" where
  "is_tahoma r = (case get_font_name r of
                    None \<Rightarrow> False
                  | Some n \<Rightarrow> contains (lower n) ''tahoma'')"

definition is_courier_new :: "run \<Rightarrow> bool" where
  "is_courier_new r = (case get_font_name r of
                         None \<Rightarrow> False
                       | Some n \<Rightarrow> contains (lower n) ''courier'' \<and> contains (lower n) ''new'')"

definition extract_courier_new_text :: "docx_paragraph \<Rightarrow> string option" where
  "extract_courier_new_text para =
     (let parts = map (\<lambda>r. strip (run_text r)) (filter is_courier_new (runs para))
      in if parts \<noteq> [] then Some (join '' '' parts) else None)"

definition extract_tahoma_text :: "docx_paragraph \<Rightarrow> string option" where
  "extract_tahoma_text para =
     (let parts = map (\<lambda>r. strip (run_text r)) (filter is_tahoma (runs para))
      in if parts \<noteq> [] then Some (join '' '' parts) else None)"

text \<open>The record created at a header.\<close>

definition new_cmd :: "command_groups \<Rightarrow> string \<Rightarrow> cmd" where
  "new_cmd cg matched =
     \<lparr>scpi = matched, description = None, conditions = None,
      group = COMMAND_TO_GROUP cg matched, cmd_syntax = [], relatedCommands = None,
      arguments = None, examples = None, returns = None, notes_list = []\<rparr>"

text \<open>A keyword line: \<open>save_current_section()\<close>, then the assignment to \<open>state\<close>.\<close>

definition enter_section :: "command_groups \<Rightarrow> section_state \<Rightarrow> parser \<Rightarrow> parser" where
  "enter_section cg s p = (save_current_section cg p)\<lparr>state := s\<rparr>"

text \<open>
  The header test: the paragraph has Tahoma text whose first word
  \<open>is_command_in_master_list\<close> resolves.
\<close>

definition header_match :: "command_groups \<Rightarrow> docx_paragraph \<Rightarrow> string option" where
  "header_match cg para =
     (case extract_tahoma_text para of
        None \<Rightarrow> None
      | Some tahoma_text \<Rightarrow>
          (case split_ws tahoma_text of
             [] \<Rightarrow> None
           | w # ws \<Rightarrow>
               (case is_command_in_master_list cg w of
                  None \<Rightarrow> None
                | Some matched \<Rightarrow> if matched \<noteq> [] then Some matched else None)))"

text \<open>The part of the loop body behind the header test: syntax capture and buffering.\<close>

definition capture_content :: "docx_paragraph \<Rightarrow> string \<Rightarrow> parser \<Rightarrow> parser" where
  "capture_content para line p =
     (case current_cmd p of
        None \<Rightarrow> p
      | Some c \<Rightarrow>
          (if state p = SYNTAX \<and> truthy (extract_courier_new_text para)
           then p\<lparr>current_cmd :=
                    Some (c\<lparr>cmd_syntax := cmd_syntax c
                              @ [strip (or_empty (extract_courier_new_text para))]\<rparr>)\<rparr>
           else if state p \<noteq> SEARCHING then p\<lparr>buffer := buffer p @ [line]\<rparr>
           else p))"

text \<open>
  The chain of keyword tests of the loop, in its order: the section that a keyword line
  (lower-cased) opens.
\<close>

definition section_keyword :: "string \<Rightarrow> section_state option" where
  "section_keyword line_lower =
     (if line_lower \<in> set [''conditions'', ''condition''] then Some CONDITIONS
      else if line_lower = ''group'' then Some GROUP
      else if line_lower = ''syntax'' then Some SYNTAX
      else if line_lower \<in> set [''arguments'', ''argument''] then Some ARGUMENTS
      else if line_lower \<in> set [''examples'', ''example''] then Some EXAMPLES
      else if line_lower \<in> set [''returns'', ''return''] then Some RETURNS
      else if contains line_lower ''related commands'' \<or> line_lower = ''related''
        then Some RELATED
      else None)"

text \<open>One iteration of the loop over \<open>doc.paragraphs\<close>.\<close>

definition process_paragraph :: "command_groups \<Rightarrow> parser \<Rightarrow> docx_paragraph \<Rightarrow> parser" where
  "process_paragraph cg p para =
     (let line = strip (para_text para); line_lower = lower line in
      if line = [] then p
      else if startswith line_lower ''note'' then
        (case current_cmd p of
           None \<Rightarrow> p
         | Some c \<Rightarrow> p\<lparr>current_cmd := Some (c\<lparr>notes_list := notes_list c @ [line]\<rparr>)\<rparr>)
      else case section_keyword line_lower of
             Some s \<Rightarrow> enter_section cg s p
           | None \<Rightarrow>
               (case header_match cg para of
                  Some matched \<Rightarrow>
                    (finalize_command cg p)\<lparr>current_cmd := Some (new_cmd cg matched),
                                             state := DESCRIPTION, buffer := []\<rparr>
                | None \<Rightarrow> capture_content para line p))"

definition initial_parser :: parser where
  "initial_parser = \<lparr>commands = [], current_cmd = None, state = SEARCHING, buffer = []\<rparr>"

text \<open>The whole pass: the loop, then the final \<open>finalize_command()\<close>.\<close>

definition extract_fast :: "command_groups \<Rightarrow> docx_paragraph list \<Rightarrow> (string \<times> cmd) list" where
  "extract_fast cg paras =
     commands (finalize_command cg (foldl (process_paragraph cg) initial_parser paras))"

section \<open>The section state machine of \<open>extract_scpi_from_word_font_aware.py\<close>\<close>

text \<open>
  \<open>MASTER_CMD_MAP\<close>: every command of the index under its upper-cased text without
  \<open>?\<close>, and, for a command that does not end in \<open>?\<close>, under that key followed by \<open>?\<close>.
\<close>

record master_info =
  original :: string
  master_group :: string

definition replace_char :: "char \<Rightarrow> string \<Rightarrow> string" where
  "replace_char c s = filter (\<lambda>d. d \<noteq> c) s"

definition master_entries :: "string \<Rightarrow> string \<Rightarrow> (string \<times> master_info) list" where
  "master_entries group_name cmd =
     (let base_cmd = replace_char (CHR ''?'') (upper (strip cmd)) in
      (base_cmd, \<lparr>original = strip cmd, master_group = group_name\<rparr>)
      # (if \<not> endswith (strip cmd) ''?''
         then [(base_cmd @ ''?'', \<lparr>original = strip cmd @ ''?'', master_group = group_name\<rparr>)]
         else []))"

definition MASTER_CMD_MAP :: "command_groups \<Rightarrow> string \<rightharpoonup> master_info" where
  "MASTER_CMD_MAP cg =
     fold (\<lambda>(group_name, cmds) m.
             fold (\<lambda>cmd m. fold (\<lambda>(k, v) m. m(k \<mapsto> v)) (master_entries group_name cmd) m) cmds m)
          cg Map.empty"

text \<open>
  The raw record of a command: the header, the mapped group, one list of lines per
  section key and the notes. \<open>SECTION_MAP\<close> sends a keyword to its section key.
\<close>

datatype section_key =
  K_description | K_group | K_syntax | K_arguments | K_examples | K_related | K_returns
  | K_conditions

record raw_cmd =
  header :: string
  mapped_group :: string
  sections :: "section_key \<Rightarrow> string list"
  raw_notes :: "string list"

definition SECTION_MAP :: "string \<rightharpoonup> section_key" where
  "SECTION_MAP = map_of
     [(''GROUP'', K_group), (''SYNTAX'', K_syntax), (''ARGUMENTS'', K_arguments),
      (''EXAMPLES'', K_examples), (''RELATED COMMANDS'', K_related), (''RELATED'', K_related),
      (''RETURNS'', K_returns), (''CONDITIONS'', K_conditions)]"

record scanner =
  sc_commands :: "raw_cmd list"
  sc_current_cmd :: "raw_cmd option"
  current_section :: section_key
  sc_buffer :: "string list"

definition is_bold :: "docx_paragraph \<Rightarrow> bool" where
  "is_bold para \<longleftrightarrow> style_bold para \<or> list_ex run_bold (runs para)"

text \<open>The header test of \<open>extract_commands\<close>, for a paragraph whose text is not blank.\<close>

definition is_header :: "command_groups \<Rightarrow> docx_paragraph \<Rightarrow> bool" where
  "is_header cg para \<longleftrightarrow>
     MASTER_CMD_MAP cg (replace_char (CHR ''?'') (upper (strip (para_text para)))) \<noteq> None
     \<and> is_bold para"

text \<open>\<open>current_cmd[current_section].extend(buffer)\<close>, done only for a non-empty buffer.\<close>

definition flush :: "section_key \<Rightarrow> string list \<Rightarrow> raw_cmd \<Rightarrow> raw_cmd" where
  "flush k buf c = (if buf \<noteq> [] then c\<lparr>sections := (sections c)(k := sections c k @ buf)\<rparr> else c)"

definition new_raw_cmd :: "master_info \<Rightarrow> raw_cmd" where
  "new_raw_cmd master = \<lparr>header = original master, mapped_group = master_group master,
                         sections = (\<lambda>k. []), raw_notes = []\<rparr>"

text \<open>The loop body below the header test, for an open record \<open>c\<close>.\<close>

definition scan_content :: "string \<Rightarrow> raw_cmd \<Rightarrow> scanner \<Rightarrow> scanner" where
  "scan_content text c s =
     (let first_word_raw = (case split_ws text of [] \<Rightarrow> [] | w # ws \<Rightarrow> w);
          first_word = (if startswith (upper text) ''RELATED COMMANDS'' then ''RELATED COMMANDS''
                        else replace_char (CHR '':'') (upper first_word_raw))
      in case SECTION_MAP first_word of
           Some k \<Rightarrow>
             (let content_after = strip (drop (length first_word_raw) text);
                  content_after = (if startswith content_after '':''
                                   then strip (drop 1 content_after) else content_after)
              in s\<lparr>sc_current_cmd := Some (flush (current_section s) (sc_buffer s) c),
                    current_section := k,
                    sc_buffer := (if content_after \<noteq> [] then [content_after] else [])\<rparr>)
         | None \<Rightarrow>
             (if startswith (upper text) ''NOTE:'' \<or> startswith (upper text) ''NOTE ''
              then s\<lparr>sc_current_cmd := Some (c\<lparr>raw_notes := raw_notes c @ [text]\<rparr>)\<rparr>
              else s\<lparr>sc_buffer := sc_buffer s @ [text]\<rparr>))"

definition scan_paragraph :: "command_groups \<Rightarrow> scanner \<Rightarrow> docx_paragraph \<Rightarrow> scanner" where
  "scan_paragraph cg s para =
     (let text = strip (para_text para) in
      if text = [] then s
      else if is_header cg para then
        (case MASTER_CMD_MAP cg (replace_char (CHR ''?'') (upper text)) of
           None \<Rightarrow> s
         | Some master_info \<Rightarrow>
             \<lparr>sc_commands = (case sc_current_cmd s of
                               None \<Rightarrow> sc_commands s
                             | Some c \<Rightarrow> sc_commands s @ [flush (current_section s) (sc_buffer s) c]),
              sc_current_cmd = Some (new_raw_cmd master_info),
              current_section = K_description, sc_buffer = []\<rparr>)
      else case sc_current_cmd s of
             None \<Rightarrow> s
           | Some c \<Rightarrow> scan_content text c s)"

definition initial_scanner :: scanner where
  "initial_scanner = \<lparr>sc_commands = [], sc_current_cmd = None,
                       current_section = K_description, sc_buffer = []\<rparr>"

text \<open>After the loop the open record, if any, is flushed and appended.\<close>

definition close_scanner :: "scanner \<Rightarrow> raw_cmd list" where
  "close_scanner s =
     (case sc_current_cmd s of
        None \<Rightarrow> sc_commands s
      | Some c \<Rightarrow> sc_commands s @ [flush (current_section s) (sc_buffer s) c])"

definition extract_commands :: "command_groups \<Rightarrow> docx_paragraph list \<Rightarrow> raw_cmd list" where
  "extract_commands cg paras = close_scanner (foldl (scan_paragraph cg) initial_scanner paras)"

section \<open>Syntax splitter\<close>

text \<open>
  The loop of \<open>extract_fast.py\<close> that resolves \<open>set_syntax\<close> and \<open>query_syntax\<close> from a
  record's syntax lines; \<open>detect_command_type\<close> of
  \<open>extract_scpi_from_word_font_aware_MSO.py\<close> has the same loop. Both variables start as
  the empty string.
\<close>

text \<open>\<open>cmd_key.split(" ")[0].split("?")[0]\<close>\<close>

definition header_of :: "string \<Rightarrow> string" where
  "header_of cmd_key =
     takeWhile (\<lambda>c. c \<noteq> CHR ''?'') (takeWhile (\<lambda>c. c \<noteq> CHR '' '') cmd_key)"

text \<open>
  The position of the second occurrence of the header, when the header is not empty and
  \<open>s.count(header) >= 2\<close>. The test \<open>second_pos > 0\<close> rejects Python's \<open>-1\<close> and \<open>0\<close>.
\<close>

definition second_occurrence :: "string \<Rightarrow> string \<Rightarrow> nat option" where
  "second_occurrence s hdr =
     (if hdr \<noteq> [] \<and> 2 \<le> str_count s hdr then
        (case str_find s hdr of
           None \<Rightarrow> None
         | Some first_pos \<Rightarrow>
             (case str_find_from s hdr (first_pos + length hdr) of
                None \<Rightarrow> None
              | Some second_pos \<Rightarrow> if 0 < second_pos then Some second_pos else None))
      else None)"

text \<open>\<open>re.search(r'\s+([A-Za-z:]+(?:<x>)?[A-Za-z:]*\?)\s*$', s)\<close>, reporting group 1.\<close>

definition word :: "string \<Rightarrow> matcher" where
  "word w s = (if startswith s w then [(w, drop (length w) s)] else [])"

definition mnemonic_char :: atom where
  "mnemonic_char c \<longleftrightarrow> isalpha c \<or> c = CHR '':''"

definition query_pattern :: "string \<Rightarrow> string list" where
  "query_pattern s =
     [a @ b @ c @ q. (w1, r1) \<leftarrow> plus_greedy isspace s, (a, r2) \<leftarrow> plus_greedy mnemonic_char r1,
          (b, r3) \<leftarrow> optional (word ''<x>'') r2, (c, r4) \<leftarrow> star_greedy mnemonic_char r3,
          (q, r5) \<leftarrow> one (\<lambda>c. c = CHR ''?'') r4, (w2, r6) \<leftarrow> star_greedy isspace r5,
          at_end r6]"

definition has_argument_marker :: "string \<Rightarrow> bool" where
  "has_argument_marker t \<longleftrightarrow> contains t ''{'' \<or> contains t ''<NR'' \<or> contains t ''<QString''"

text \<open>An assignment guarded by \<open>if candidate and not variable\<close>.\<close>

definition keep_first :: "string \<Rightarrow> string \<Rightarrow> string" where
  "keep_first current candidate = (if candidate \<noteq> [] \<and> current = [] then candidate else current)"

text \<open>One iteration of the loop over \<open>syntax_lines\<close>, on the pair (\<open>set_syntax\<close>, \<open>query_syntax\<close>).\<close>

definition split_line :: "string \<Rightarrow> string \<times> string \<Rightarrow> string \<Rightarrow> string \<times> string" where
  "split_line cmd_key forms s0 =
     (let s = strip s0; set_syntax = fst forms; query_syntax = snd forms in
      if s = [] then forms
      else if CHR ''?'' \<in> set s then
        (case second_occurrence s (header_of cmd_key) of
           Some second_pos \<Rightarrow>
             (keep_first set_syntax (strip (take second_pos s)),
              keep_first query_syntax (strip (drop second_pos s)))
         | None \<Rightarrow>
             (case search_from query_pattern 0 s of
                None \<Rightarrow> (set_syntax, if query_syntax = [] then s else query_syntax)
              | Some (start, g1) \<Rightarrow>
                  (let potential_set = strip (take start s); potential_query = strip g1 in
                   if potential_set \<noteq> [] \<and> has_argument_marker potential_set
                   then (if set_syntax = [] then potential_set else set_syntax,
                         if query_syntax = [] then potential_query else query_syntax)
                   else (set_syntax, if query_syntax = [] then s else query_syntax))))
      else (if set_syntax = [] then s else set_syntax, query_syntax))"

definition split_syntax :: "string \<Rightarrow> string list \<Rightarrow> string \<times> string" where
  "split_syntax cmd_key syntax_lines = foldl (split_line cmd_key) ([], []) syntax_lines"

text \<open>
  After the loop: a query-only command gets no set form, and a missing form is made from
  the command key. The result is the pair (\<open>set_syntax\<close>, \<open>query_syntax\<close>), where the set
  form may be \<open>None\<close>.
\<close>

definition is_query_only :: "string \<Rightarrow> string \<Rightarrow> string list \<Rightarrow> bool" where
  "is_query_only desc cmd_key syntax_lines \<longleftrightarrow>
     contains (lower desc) ''query-only'' \<or> contains (lower desc) ''(query only)''
     \<or> contains desc ''(Query Only)''
     \<or> (endswith cmd_key ''?''
         \<and> \<not> list_ex (\<lambda>s. CHR ''?'' \<notin> set s) (filter (\<lambda>s. strip s \<noteq> []) syntax_lines))"

definition resolve_syntax :: "string \<Rightarrow> string \<Rightarrow> string list \<Rightarrow> string option \<times> string" where
  "resolve_syntax desc cmd_key syntax_lines =
     (let forms = split_syntax cmd_key syntax_lines;
          set_syntax = fst forms; query_syntax = snd forms;
          default_query = (if endswith cmd_key ''?'' then cmd_key else cmd_key @ ''?'')
      in if is_query_only desc cmd_key syntax_lines
         then (None, if query_syntax = [] then default_query else query_syntax)
         else (Some (if set_syntax = [] \<and> \<not> endswith cmd_key ''?''
                     then replace_char (CHR ''?'') cmd_key else set_syntax),
               if query_syntax = [] then default_query else query_syntax))"

text \<open>
  \<open>detect_command_type\<close> of \<open>extract_scpi_from_word_font_aware_MSO.py\<close>: the same loop
  over the syntax list, with its own defaults before and after.
\<close>

record command_type_info =
  commandType :: string
  hasQuery :: bool
  hasSet :: bool
  querySyntax :: "string option"
  setSyntax :: "string option"

definition detect_command_type :: "string list \<Rightarrow> string \<Rightarrow> command_type_info" where
  "detect_command_type syntax_list command_header =
     (if syntax_list = [] then
        (if endswith command_header ''?''
         then \<lparr>commandType = ''query'', hasQuery = True, hasSet = False,
               querySyntax = Some command_header, setSyntax = None\<rparr>
         else \<lparr>commandType = ''both'', hasQuery = True, hasSet = True,
               querySyntax = Some (command_header @ ''?''), setSyntax = Some command_header\<rparr>)
      else
        (let forms = split_syntax command_header syntax_list;
             set_syntax = (if fst forms = [] \<and> \<not> endswith command_header ''?''
                           then replace_char (CHR ''?'') command_header else fst forms);
             query_syntax = (if snd forms = []
                             then (if endswith command_header ''?'' then command_header
                                   else command_header @ ''?'')
                             else snd forms);
             has_query = (query_syntax \<noteq> []); has_set = (set_syntax \<noteq> [])
         in \<lparr>commandType = (if has_query \<and> has_set then ''both''
                              else if has_query then ''query'' else ''set''),
             hasQuery = has_query, hasSet = has_set,
             querySyntax = Some query_syntax, setSyntax = Some set_syntax\<rparr>))"

section \<open>Example splitter\<close>

text \<open>
  \<open>validate_examples\<close> and the loop over the validated examples in \<open>post_process\<close> of
  \<open>extract_scpi_from_word_font_aware.py\<close>.
\<close>

definition prose_starts :: "string list" where
  "prose_starts = [''this '', ''the '', ''a '', ''an '', ''note'', ''see '', ''use '', ''for '',
                   ''when '', ''if '', ''to '', ''in '', ''on '', ''it '', ''you '', ''requires'']"

definition validate_examples :: "string list \<Rightarrow> string \<Rightarrow> string list" where
  "validate_examples example_lines command_header =
     (let prefix = takeWhile (\<lambda>c. c \<noteq> CHR '':'')
                     (upper (replace_char (CHR ''?'') command_header))
      in filter (\<lambda>line.
           (case line of [] \<Rightarrow> False | c # cs \<Rightarrow> is_upper_char c)
           \<and> \<not> list_ex (startswith (lower line)) prose_starts
           \<and> startswith (upper (case split_ws line of [] \<Rightarrow> [] | w # ws \<Rightarrow> w)) prefix
           \<and> CHR '':'' \<in> set line)
         (map strip example_lines))"

text \<open>
  \<open>re.search(desc_start_pattern, line, re.IGNORECASE)\<close> with the pattern
  \<open>\s+(sets|queries|returns|indicates|specifies|turns|enables|disables|might|is|will|this)\s+\<close>;
  only the start of the match is used.
\<close>

definition desc_start_words :: "string list" where
  "desc_start_words = [''sets'', ''queries'', ''returns'', ''indicates'', ''specifies'', ''turns'',
                       ''enables'', ''disables'', ''might'', ''is'', ''will'', ''this'']"

definition desc_start_pattern :: "string \<Rightarrow> string list" where
  "desc_start_pattern s =
     [g. (w1, r1) \<leftarrow> plus_greedy isspace s, (g, r2) \<leftarrow> alt_ci desc_start_words r1,
         (w2, r3) \<leftarrow> plus_greedy isspace r2]"

text \<open>\<open>line.split("might return", 1)\<close>\<close>

definition split_once :: "string \<Rightarrow> string \<Rightarrow> string list" where
  "split_once line sep =
     (case str_find line sep of
        None \<Rightarrow> [line]
      | Some i \<Rightarrow> [take i line, drop (i + length sep) line])"

text \<open>\<open>re.split(r'\s+(?=[a-z])', line, maxsplit=1)\<close>: the pair (start, text behind the match).\<close>

definition before_lowercase :: "string \<Rightarrow> string list" where
  "before_lowercase s =
     [r1. (w1, r1) \<leftarrow> plus_greedy isspace s,
          (case r1 of [] \<Rightarrow> False | c # cs \<Rightarrow> is_lower_char c)]"

text \<open>The loop body: the pair (\<open>code\<close>, \<open>ex_desc\<close>) of one validated example line.\<close>

definition split_example :: "string \<Rightarrow> string \<times> string" where
  "split_example line =
     (case search_from desc_start_pattern 0 line of
        Some (start, g) \<Rightarrow> (strip (take start line), strip (drop start line))
      | None \<Rightarrow>
          if contains (lower line) ''might return''
          then (case split_once line ''might return'' of
                  [] \<Rightarrow> ([], [])
                | a # bs \<Rightarrow>
                    (strip a, case bs of [] \<Rightarrow> [] | b # cs \<Rightarrow> ''might return '' @ strip b))
          else (case search_from before_lowercase 0 line of
                  None \<Rightarrow> (strip line, [])
                | Some (start, rest) \<Rightarrow> (strip (take start line), strip rest)))"

section \<open>Parameter inference\<close>

text \<open>
  \<open>detect_params\<close> of \<open>extract_scpi_from_word_font_aware.py\<close> (the copy in
  \<open>extract_scpi_from_word_font_aware_MSO.py\<close> is identical). A parameter is a dictionary
  with the keys \<open>name\<close>, \<open>type\<close>, \<open>required\<close> and, depending on the step that makes it,
  \<open>default\<close>, \<open>min\<close>, \<open>max\<close>, \<open>options\<close>, \<open>description\<close>; an absent key is \<open>None\<close> here.

  Floating point numbers are not modelled. A default that the code computes as
  \<open>int(float(text))\<close> or \<open>float(text)\<close> is kept as the text together with the conversion
  that is applied to it; the conversion gives \<open>None\<close> when it raises.
\<close>

datatype kind = Integer | Float | String | Enumeration | Number

datatype pyval = PNone | PInt int | PStr string | PIntOfFloat string | PFloatOf string

record param =
  param_name :: string
  param_type :: kind
  param_required :: bool
  param_default :: "pyval option"
  param_min :: "int option"
  param_max :: "int option"
  param_options :: "string list option"
  param_description :: "string option"

text \<open>
  \<open>re.findall\<close>: the matches from left to right, each search resuming behind the previous
  match. A pattern reports its result with the length of the matched text, which is never
  zero for the patterns here; \<open>findall_skip k\<close> skips \<open>k\<close> characters first.
\<close>

fun findall_skip :: "(string \<Rightarrow> ('a \<times> nat) list) \<Rightarrow> nat \<Rightarrow> string \<Rightarrow> 'a list" where
  "findall_skip m k [] = []"
| "findall_skip m (Suc k) (c # cs) = findall_skip m k cs"
| "findall_skip m 0 (c # cs) =
     (case m (c # cs) of
        [] \<Rightarrow> findall_skip m 0 cs
      | (x, n) # ms \<Rightarrow> x # findall_skip m (n - 1) cs)"

definition findall :: "(string \<Rightarrow> ('a \<times> nat) list) \<Rightarrow> string \<Rightarrow> 'a list" where
  "findall m s = findall_skip m 0 s"

subsection \<open>The default taken from the examples\<close>

text \<open>
  \<open>re.search(r'\s+(sets|indicates|specifies|returns|turns|enables|queries|is|might|this)\s+',
  ex_text, re.IGNORECASE)\<close>
\<close>

definition example_verbs :: "string list" where
  "example_verbs = [''sets'', ''indicates'', ''specifies'', ''returns'', ''turns'', ''enables'',
                    ''queries'', ''is'', ''might'', ''this'']"

definition example_verb_pattern :: "string \<Rightarrow> string list" where
  "example_verb_pattern s =
     [g. (w1, r1) \<leftarrow> plus_greedy isspace s, (g, r2) \<leftarrow> alt_ci example_verbs r1,
         (w2, r3) \<leftarrow> plus_greedy isspace r2]"

text \<open>The four shapes of a value: \<open>^-?[\d.]+[eE]?[-+]?\d*$\<close>, \<open>^(ON|OFF|0|1)$\<close>,
  \<open>^".*"$\<close> and \<open>^[A-Z]+\d*$\<close>, the second and the fourth with \<open>re.IGNORECASE\<close>.\<close>

definition number_shape :: "string \<Rightarrow> bool" where
  "number_shape s \<longleftrightarrow>
     [r5. (m, r1) \<leftarrow> optional (one (\<lambda>c. c = CHR ''-'')) s,
          (d, r2) \<leftarrow> plus_greedy (\<lambda>c. isdigit c \<or> c = CHR ''.'') r1,
          (e, r3) \<leftarrow> optional (one (\<lambda>c. c \<in> set ''eE'')) r2,
          (g, r4) \<leftarrow> optional (one (\<lambda>c. c \<in> set ''-+'')) r3,
          (x, r5) \<leftarrow> star_greedy isdigit r4, at_end r5] \<noteq> []"

definition switch_shape :: "string \<Rightarrow> bool" where
  "switch_shape s \<longleftrightarrow>
     [r1. (g, r1) \<leftarrow> alt_ci [''ON'', ''OFF'', ''0'', ''1''] s, at_end r1] \<noteq> []"

definition quoted_shape :: "string \<Rightarrow> bool" where
  "quoted_shape s \<longleftrightarrow>
     [r3. (q, r1) \<leftarrow> one (\<lambda>c. c = CHR 0x22) s, (t, r2) \<leftarrow> star_greedy dot r1,
          (q', r3) \<leftarrow> one (\<lambda>c. c = CHR 0x22) r2, at_end r3] \<noteq> []"

definition name_shape :: "string \<Rightarrow> bool" where
  "name_shape s \<longleftrightarrow>
     [r2. (a, r1) \<leftarrow> plus_greedy isalpha s, (d, r2) \<leftarrow> star_greedy isdigit r1, at_end r2] \<noteq> []"

text \<open>\<open>ex_text.rsplit(' ', 1)[1]\<close> for a text that contains a space.\<close>

definition after_last_space :: "string \<Rightarrow> string" where
  "after_last_space s = rev (takeWhile (\<lambda>c. c \<noteq> CHR '' '') (rev s))"

text \<open>The loop over the examples: the argument of the first example that is not a query
  and ends in a value.\<close>

fun example_default :: "string list \<Rightarrow> string option" where
  "example_default [] = None"
| "example_default (ex # exs) =
     (if CHR ''?'' \<in> set ex then example_default exs
      else let ex_text = (case search_from example_verb_pattern 0 ex of
                            None \<Rightarrow> ex
                          | Some (start, g) \<Rightarrow> take start ex);
               arg = strip (after_last_space ex_text)
           in if CHR '' '' \<in> set ex_text
                 \<and> (number_shape arg \<or> switch_shape arg \<or> quoted_shape arg \<or> name_shape arg)
              then Some arg
              else example_default exs)"

subsection \<open>Pattern 0: placeholders in the header\<close>

text \<open>\<open>re.findall(r'([A-Z]+)<([xn])>', command_header, re.IGNORECASE)\<close>\<close>

definition header_placeholder :: "string \<Rightarrow> ((string \<times> string) \<times> nat) list" where
  "header_placeholder s =
     [((p, x), length p + 3). (p, r1) \<leftarrow> plus_greedy isalpha s, (lt, r2) \<leftarrow> one (\<lambda>c. c = CHR ''<'') r1,
          (x, r3) \<leftarrow> one (ci_class ''xn'') r2, (gt, r4) \<leftarrow> one (\<lambda>c. c = CHR ''>'') r3]"

definition path_param :: "string \<Rightarrow> int \<Rightarrow> string \<Rightarrow> param" where
  "path_param n hi d =
     \<lparr>param_name = n, param_type = Integer, param_required = True, param_default = Some (PInt 1),
      param_min = Some 1, param_max = Some hi, param_options = None, param_description = Some d\<rparr>"

definition header_param :: "string \<Rightarrow> param list" where
  "header_param prefix =
     (let prefix_upper = upper prefix in
      if prefix_upper \<in> set [''POWER'', ''POWER'']
        then [path_param ''power'' 8 ''Power measurement number (1-8)'']
      else if prefix_upper = ''CH'' then [path_param ''channel'' 8 ''Channel number (1-8)'']
      else if prefix_upper = ''MATH'' then [path_param ''math'' 4 ''Math waveform number (1-4)'']
      else if prefix_upper = ''REF'' then [path_param ''ref'' 4 ''Reference waveform number (1-4)'']
      else if prefix_upper = ''MEAS'' then [path_param ''meas'' 8 ''Measurement number (1-8)'']
      else if prefix_upper = ''SEARCH'' then [path_param ''search'' 8 ''Search number (1-8)'']
      else if prefix_upper \<in> set [''B'', ''BUS''] then [path_param ''bus'' 8 ''Bus number (1-8)'']
      else if prefix_upper = ''PLOT'' then [path_param ''plot'' 4 ''Plot number (1-4)'']
      else if prefix_upper = ''HISTOGRAM''
        then [path_param ''histogram'' 4 ''Histogram number (1-4)'']
      else if prefix_upper = ''CURSOR'' then [path_param ''cursor'' 2 ''Cursor number (1-2)'']
      else if prefix_upper = ''CALLOUT'' then [path_param ''callout'' 8 ''Callout number (1-8)'']
      else if prefix_upper = ''MASK'' then [path_param ''mask'' 4 ''Mask number (1-4)'']
      else [])"

definition header_params :: "string \<Rightarrow> param list" where
  "header_params command_header =
     concat (map (\<lambda>(prefix, placeholder). header_param prefix)
               (findall header_placeholder command_header))"

subsection \<open>Pattern 1: a trailing source outside braces\<close>

text \<open>\<open>re.search(r'\s+(CH<[xn]>|MATH<[xn]>|REF<[xn]>)\s*$', syn, re.IGNORECASE)\<close>\<close>

definition indexed_token :: "string \<Rightarrow> matcher" where
  "indexed_token p s =
     (if match_here (indexed p) s then [(take (length p + 3) s, drop (length p + 3) s)] else [])"

definition trailing_pattern :: "string \<Rightarrow> string list" where
  "trailing_pattern s =
     [g. (w1, r1) \<leftarrow> plus_greedy isspace s,
         (g, r2) \<leftarrow> indexed_token ''CH'' r1 @ indexed_token ''MATH'' r1 @ indexed_token ''REF'' r1,
         (w2, r3) \<leftarrow> star_greedy isspace r2, at_end r3]"

definition enum_param :: "string \<Rightarrow> string list \<Rightarrow> string \<Rightarrow> param" where
  "enum_param n opts d =
     \<lparr>param_name = n, param_type = Enumeration, param_required = True,
      param_default = Some (case opts of [] \<Rightarrow> PNone | x # xs \<Rightarrow> PStr x),
      param_min = None, param_max = None, param_options = Some opts,
      param_description = Some d\<rparr>"

text \<open>The loop over the syntax entries; it ends at the first entry with a trailing source.\<close>

fun trailing_source :: "string list \<Rightarrow> param list" where
  "trailing_source [] = []"
| "trailing_source (syn # syns) =
     (if CHR ''?'' \<in> set syn then trailing_source syns
      else case search_from trailing_pattern 0 syn of
             None \<Rightarrow> trailing_source syns
           | Some (start, g) \<Rightarrow>
               (let expanded = expand_wildcards [upper g] in
                if expanded \<noteq> []
                then [enum_param ''source'' expanded
                        (''Options: '' @ join '', '' (take 5 expanded) @ ''...'')]
                else []))"

subsection \<open>Pattern 2: enumerations in braces\<close>

text \<open>\<open>re.findall(r'\{([^}]+)\}', full_syntax)\<close>\<close>

definition brace_group :: "string \<Rightarrow> (string \<times> nat) list" where
  "brace_group s =
     [(g, length g + 2). (b, r1) \<leftarrow> one (\<lambda>c. c = CHR ''{'') s,
          (g, r2) \<leftarrow> plus_greedy (\<lambda>c. c \<noteq> CHR ''}'') r1, (e, r3) \<leftarrow> one (\<lambda>c. c = CHR ''}'') r2]"

text \<open>\<open>re.match(r'<NR[123]>|<QString>|<Block>', o, re.IGNORECASE)\<close>\<close>

definition placeholder_option :: "string \<Rightarrow> bool" where
  "placeholder_option o' \<longleftrightarrow>
     match_here nr123 o' \<or> match_here (lit_ci ''<QString>'') o' \<or> match_here (lit_ci ''<Block>'') o'"

text \<open>The body of the loop over the brace groups: the parameter of one group, if any.\<close>

definition brace_param :: "string \<Rightarrow> param list" where
  "brace_param match =
     (let raw_options = filter (\<lambda>o'. o' \<noteq> []) (map strip (split_char (CHR ''|'') match)) in
      if list_all placeholder_option raw_options then []
      else let has_nr1 = list_ex (match_here (lit_ci ''<NR1>'')) raw_options;
               enum_only = filter (\<lambda>o'. \<not> placeholder_option o') raw_options;
               expanded_options = expand_wildcards enum_only
           in if expanded_options = [] then []
              else let param_name =
                         (if ''ON'' \<in> set expanded_options \<and> ''OFF'' \<in> set expanded_options
                            then ''state''
                          else if list_ex (\<lambda>o'. contains o' ''CH'') (take 5 expanded_options)
                            then ''source''
                          else ''value'');
                       desc_preview = join '', '' (take 5 expanded_options)
                                      @ (if 5 < length expanded_options then ''...'' else [])
                                      @ (if has_nr1 then '' (or 0/1)'' else [])
                   in [enum_param param_name expanded_options (''Options: '' @ desc_preview)])"

definition brace_params :: "string \<Rightarrow> param list" where
  "brace_params full_syntax = concat (map brace_param (findall brace_group full_syntax))"

subsection \<open>Numeric and string placeholders\<close>

definition path_names :: "string list" where
  "path_names = [''bus'', ''power'', ''channel'', ''math'', ''ref'', ''meas'', ''search'', ''plot'',
                 ''cursor'', ''mask'', ''histogram'', ''callout'', ''source'']"

definition has_enum_arg :: "param list \<Rightarrow> bool" where
  "has_enum_arg params \<longleftrightarrow>
     list_ex (\<lambda>p. param_type p = Enumeration \<and> param_name p \<notin> set path_names) params"

text \<open>\<open>example_default.strip('"\'')\<close>\<close>

definition strip_quotes :: "string \<Rightarrow> string" where
  "strip_quotes s =
     rev (dropWhile (\<lambda>c. c \<in> set [CHR 0x22, CHR 0x27])
            (rev (dropWhile (\<lambda>c. c \<in> set [CHR 0x22, CHR 0x27]) s)))"

definition value_param :: "string \<Rightarrow> kind \<Rightarrow> pyval \<Rightarrow> string \<Rightarrow> param" where
  "value_param n k d txt =
     \<lparr>param_name = n, param_type = k, param_required = True, param_default = Some d,
      param_min = None, param_max = None, param_options = None, param_description = Some txt\<rparr>"

definition placeholder_params :: "param list \<Rightarrow> string \<Rightarrow> string option \<Rightarrow> param list" where
  "placeholder_params params full_syntax ex_default =
     (if has_enum_arg params then []
      else if re_search (lit_ci ''<NR1>'') full_syntax
        then [value_param ''value'' Integer
                (case ex_default of None \<Rightarrow> PNone | Some d \<Rightarrow> if d = [] then PNone else PIntOfFloat d)
                ''Integer value'']
      else if re_search (lit_ci ''<NR'' @ [ci_class ''23''] @ lit_ci ''>'') full_syntax
        then [value_param ''value'' Float
                (case ex_default of None \<Rightarrow> PNone | Some d \<Rightarrow> if d = [] then PNone else PFloatOf d)
                ''Floating point value'']
      else if re_search (lit_ci ''<QString>'') full_syntax
        then [value_param ''label'' String
                (case ex_default of None \<Rightarrow> PNone
                 | Some d \<Rightarrow> if d = [] then PNone else PStr (strip_quotes d))
                ''Quoted string value'']
      else [])"

subsection \<open>The fallback on the arguments text\<close>

definition bare_param :: "string \<Rightarrow> kind \<Rightarrow> param" where
  "bare_param n k =
     \<lparr>param_name = n, param_type = k, param_required = True, param_default = None,
      param_min = None, param_max = None, param_options = None, param_description = None\<rparr>"

definition arguments_params :: "string \<Rightarrow> param list" where
  "arguments_params arguments_text =
     (let lower_args = lower arguments_text in
      if contains lower_args ''integer'' then [bare_param ''value'' Integer]
      else if contains lower_args ''float'' \<or> contains lower_args ''nr2''
              \<or> contains lower_args ''nr3''
        then [bare_param ''value'' Float]
      else if contains lower_args ''string'' \<or> contains lower_args ''quoted''
        then [bare_param ''label'' String]
      else [])"

subsection \<open>\<open>detect_params\<close>\<close>

definition syntax_params :: "param list \<Rightarrow> string list \<Rightarrow> string option \<Rightarrow> param list" where
  "syntax_params params0 syntax_list ex_default =
     (if syntax_list = [] then params0
      else let full_syntax = join '' '' syntax_list;
               params1 = params0 @ trailing_source syntax_list;
               params2 = params1 @ brace_params full_syntax
           in params2 @ placeholder_params params2 full_syntax ex_default)"

definition detect_params ::
    "string \<Rightarrow> string list \<Rightarrow> string option \<Rightarrow> string list \<Rightarrow> param list" where
  "detect_params command_header syntax_list arguments_text examples_list =
     (let ex_default = example_default examples_list;
          params = syntax_params (header_params command_header) syntax_list ex_default
      in if params = [] \<and> truthy arguments_text
         then arguments_params (or_empty arguments_text)
         else params)"

section \<open>Parameter inference in \<open>extract_fast.py\<close>\<close>

text \<open>
  The part of the output loop of \<open>extract_fast.py\<close> that builds \<open>params\<close> for one stored
  command. The pair of the list \<open>params\<close> and the set \<open>param_names\<close> is threaded through
  the steps in the order of the code.
\<close>

type_synonym param_state = "param list \<times> string list"

text \<open>An addition guarded by \<open>if name not in param_names\<close>, recorded under the name \<open>key\<close>.\<close>

definition add_param :: "string \<Rightarrow> param \<Rightarrow> param_state \<Rightarrow> param_state" where
  "add_param key p st =
     (if key \<in> set (snd st) then st else (fst st @ [p], snd st @ [key]))"

definition MNEMONIC_DEFINITIONS :: "(string \<times> string \<times> string) list" where
  "MNEMONIC_DEFINITIONS =
     [(''B<x>'', ''bus'', ''B<x> where x is the bus number (1-16)''),
      (''CH<x>_D<x>'', ''channel'', ''CH<x> where x is channel number (1-8)''),
      (''CH<x>'', ''channel'', ''CH<x> where x is channel number (1-8)''),
      (''CURSOR<x>'', ''cursor'', ''CURSOR<x> where x is cursor number (1 or 2)''),
      (''MATH<x>'', ''math'', ''MATH<x> where x is math waveform number (1-4)''),
      (''MEAS<x>'', ''measurement'', ''MEAS<x> where x is measurement number (1-8)''),
      (''REF<x>_D<x>'', ''reference'', ''REF<x> where x is reference number (1-4)''),
      (''REF<x>'', ''reference'', ''REF<x> where x is reference waveform (1-4)''),
      (''WAVEView<x>'', ''waveview'', ''WAVEView<x> where x must be 1''),
      (''PLOTView<x>'', ''plotview'', ''PLOTView<x> where x must be 1''),
      (''MATHFFTView<x>'', ''mathfftview'', ''MATHFFTView<x> where x must be 1''),
      (''SEARCH<x>'', ''search'', ''SEARCH<x> where x is search number (1-8)''),
      (''ZOOM<x>'', ''zoom'', ''ZOOM<x> where x must be 1''),
      (''POWer<x>'', ''power'', ''POWer<x> where x is power measurement badge number (1-8)''),
      (''HISTogram<x>'', ''histogram'', ''HISTogram<x> where x is histogram number (1-4)''),
      (''PLOT<x>'', ''plot'', ''PLOT<x> where x is plot number (1-4)''),
      (''D<x>'', ''digital_bit'', ''D<x> where x is digital bit (0-7)''),
      (''MASK<x>'', ''mask'', ''MASK<x> where x is mask number (1-8)''),
      (''CALLOUTS<x>'', ''callout'', ''CALLOUTS<x> where x is callout number''),
      (''ACTONEVent<x>'', ''actonevent'', ''ACTONEVent<x> where x is event number''),
      (''LICENSE<x>'', ''license'', ''LICENSE<x> where x is license number''),
      (''RAIL<x>'', ''rail'', ''RAIL<x> where x is rail number (1-7)''),
      (''SOURCE<x>'', ''source_num'', ''SOURCE<x> where x is source number'')]"

definition fast_param ::
    "string \<Rightarrow> kind \<Rightarrow> pyval option \<Rightarrow> string list option \<Rightarrow> string option \<Rightarrow> param" where
  "fast_param n k d opts txt =
     \<lparr>param_name = n, param_type = k, param_required = True, param_default = d,
      param_min = None, param_max = None, param_options = opts, param_description = txt\<rparr>"

text \<open>The loop over the mnemonic patterns; each is a literal text, searched with
  \<open>re.IGNORECASE\<close>.\<close>

definition mnemonic_step :: "string \<Rightarrow> string \<times> string \<times> string \<Rightarrow> param_state \<Rightarrow> param_state" where
  "mnemonic_step cmd_key entry st =
     (case entry of (pattern, pname, desc) \<Rightarrow>
        if re_search (lit_ci pattern) cmd_key
        then add_param pname (fast_param pname Integer (Some (PInt 1)) None (Some desc)) st
        else st)"

text \<open>\<open>re.search(r'\{([A-Z|]+)\}', cmd_key, re.IGNORECASE)\<close>, reporting group 1.\<close>

definition header_enum_pattern :: "string \<Rightarrow> string list" where
  "header_enum_pattern s =
     [g. (b, r1) \<leftarrow> one (\<lambda>c. c = CHR ''{'') s,
         (g, r2) \<leftarrow> plus_greedy (\<lambda>c. isalpha c \<or> c = CHR ''|'') r1,
         (e, r3) \<leftarrow> one (\<lambda>c. c = CHR ''}'') r2]"

definition split_options :: "string \<Rightarrow> string list" where
  "split_options g = filter (\<lambda>o'. o' \<noteq> []) (map strip (split_char (CHR ''|'') g))"

definition header_enum_step :: "string \<Rightarrow> param_state \<Rightarrow> param_state" where
  "header_enum_step cmd_key st =
     (case search_from header_enum_pattern 0 cmd_key of
        None \<Rightarrow> st
      | Some (start, g) \<Rightarrow>
          (case split_options g of
             [] \<Rightarrow> st
           | o1 # os \<Rightarrow>
               add_param ''trigger_type''
                 (fast_param ''trigger_type'' Enumeration (Some (PStr o1)) (Some (o1 # os))
                    (Some (''Trigger type: '' @ join '' or '' (o1 # os)))) st))"

text \<open>
  The first loop over the syntax lines, which collects the set parts in
  \<open>set_syntax_lines\<close> and the query parts in \<open>query_syntax_lines\<close>.
\<close>

definition collect_line ::
    "string \<Rightarrow> string list \<times> string list \<Rightarrow> string \<Rightarrow> string list \<times> string list" where
  "collect_line cmd_key acc s0 =
     (let s = strip s0; set_lines = fst acc; query_lines = snd acc in
      if s = [] then acc
      else if CHR ''?'' \<in> set s then
        (case second_occurrence s (header_of cmd_key) of
           Some second_pos \<Rightarrow>
             (let set_part = strip (take second_pos s); query_part = strip (drop second_pos s)
              in (if set_part \<noteq> [] then set_lines @ [set_part] else set_lines,
                  if query_part \<noteq> [] then query_lines @ [query_part] else query_lines))
         | None \<Rightarrow>
             (case search_from query_pattern 0 s of
                None \<Rightarrow> (set_lines, query_lines @ [s])
              | Some (start, g1) \<Rightarrow>
                  (let potential_set = strip (take start s); potential_query = strip g1 in
                   if potential_set \<noteq> [] \<and> has_argument_marker potential_set
                   then (set_lines @ [potential_set], query_lines @ [potential_query])
                   else (set_lines, query_lines @ [s]))))
      else (set_lines @ [s], query_lines))"

definition set_syntax_lines_of :: "string \<Rightarrow> string list \<Rightarrow> string list" where
  "set_syntax_lines_of cmd_key syntax_lines = fst (foldl (collect_line cmd_key) ([], []) syntax_lines)"

text \<open>
  The placeholders \<open><NR1>\<close>, \<open><NR2>\<close>, \<open><NR3>\<close> (case-sensitive) and \<open><QString>\<close>
  (with \<open>re.IGNORECASE\<close>) outside braces: \<open>re.search(r'\{[^}]*<NR[123]>[^}]*\}', text)\<close> and
  its \<open><QString>\<close> counterpart test for a placeholder inside a brace group.
\<close>

definition nr_token :: "atom list" where
  "nr_token = map (\<lambda>p c. c = p) ''<NR'' @ [\<lambda>c. c \<in> set ''123''] @ [\<lambda>c. c = CHR ''>'']"

definition fixed :: "atom list \<Rightarrow> matcher" where
  "fixed pat s = (if match_here pat s then [(take (length pat) s, drop (length pat) s)] else [])"

definition braced :: "atom list \<Rightarrow> string \<Rightarrow> string list" where
  "braced pat s =
     [r5. (b, r1) \<leftarrow> one (\<lambda>c. c = CHR ''{'') s, (x, r2) \<leftarrow> star_greedy (\<lambda>c. c \<noteq> CHR ''}'') r1,
          (t, r3) \<leftarrow> fixed pat r2, (y, r4) \<leftarrow> star_greedy (\<lambda>c. c \<noteq> CHR ''}'') r3,
          (e, r5) \<leftarrow> one (\<lambda>c. c = CHR ''}'') r4]"

definition numeric_step :: "string \<Rightarrow> param_state \<Rightarrow> param_state" where
  "numeric_step combined_text st =
     (if re_search nr_token combined_text \<and> search_from (braced nr_token) 0 combined_text = None
      then add_param ''value''
             (fast_param ''value'' (if contains combined_text ''<NR1>'' then Integer else Number)
                (Some (PInt 1)) None (Some ''Numeric value'')) st
      else st)"

definition qstring_step :: "string \<Rightarrow> param_state \<Rightarrow> param_state" where
  "qstring_step combined_text st =
     (if re_search (lit_ci ''<QString>'') combined_text
         \<and> search_from (braced (lit_ci ''<QString>'')) 0 combined_text = None
      then add_param ''value''
             (fast_param ''value'' String None None (Some ''Quoted string value'')) st
      else st)"

text \<open>
  The loop over the brace groups of the set syntax lines. \<open>expand_fast\<close> is the inner
  loop over the options of one group: the expanded options and \<open>has_mnemonic\<close>.
\<close>

definition expand_fast_option :: "string \<Rightarrow> string list \<times> bool" where
  "expand_fast_option opt =
     (if upper opt = upper ''CH<x>'' then (family ''CH'' 9, True)
      else if upper opt = upper ''MATH<x>'' then (family ''MATH'' 5, True)
      else if upper opt = upper ''REF<x>'' then (family ''REF'' 5, True)
      else if upper opt = upper ''B<x>'' then (family ''B'' 9, True)
      else if upper opt = upper ''MEAS<x>'' then (family ''MEAS'' 9, True)
      else if startswith opt ''<'' \<and> endswith opt ''>'' then
        (let placeholder_name = lower (take (length opt - 2) (drop 1 opt)) in
         if contains placeholder_name ''path'' \<or> contains placeholder_name ''file''
            \<or> contains placeholder_name ''string''
         then ([''<custom>''], False)
         else if contains placeholder_name ''nr'' then ([''<number>''], False)
         else ([], False))
      else ([opt], False))"

definition expand_fast :: "string list \<Rightarrow> string list \<times> bool" where
  "expand_fast raw_options =
     (concat (map (\<lambda>opt. fst (expand_fast_option opt)) raw_options),
      list_ex (\<lambda>opt. snd (expand_fast_option opt)) raw_options)"

definition single_upper :: "string \<Rightarrow> bool" where
  "single_upper opt \<longleftrightarrow> (case opt of [c] \<Rightarrow> is_upper_char c | _ \<Rightarrow> False)"

definition brace_step :: "param_state \<Rightarrow> string \<Rightarrow> param_state" where
  "brace_step st g =
     (case split_options g of
        [] \<Rightarrow> st
      | o1 # os \<Rightarrow>
          if list_all single_upper (o1 # os) then st
          else (case expand_fast (o1 # os) of
                  ([], has_mnemonic) \<Rightarrow>
                    (if contains (upper o1) ''NR''
                     then add_param ''value'' (fast_param ''value'' Number (Some (PInt 1)) None None) st
                     else if contains (lower o1) ''string'' \<or> contains (lower o1) ''path''
                     then add_param ''value'' (fast_param ''value'' String None None None) st
                     else st)
                | (e1 # es, has_mnemonic) \<Rightarrow>
                    add_param ''value''
                      (fast_param (if has_mnemonic then ''source'' else ''value'') Enumeration
                         (Some (PStr e1)) (Some (e1 # es))
                         (Some (''One of: '' @ join '', '' (take 5 (e1 # es))
                                @ (if 5 < length (e1 # es) then ''...'' else [])))) st))"

definition brace_steps :: "string list \<Rightarrow> param_state \<Rightarrow> param_state" where
  "brace_steps set_syntax_lines st =
     foldl brace_step st (concat (map (findall brace_group) set_syntax_lines))"

text \<open>
  The value inferred from the first example that is not a query and ends in a number
  (\<open>re.match(r'^-?\d+\.?\d*$', value_part)\<close>).
\<close>

definition plain_number :: "string \<Rightarrow> bool" where
  "plain_number s \<longleftrightarrow>
     [r4. (m, r1) \<leftarrow> optional (one (\<lambda>c. c = CHR ''-'')) s, (d, r2) \<leftarrow> plus_greedy isdigit r1,
          (p, r3) \<leftarrow> optional (one (\<lambda>c. c = CHR ''.'')) r2, (f, r4) \<leftarrow> star_greedy isdigit r3,
          at_end r4] \<noteq> []"

definition numeric_example :: "example \<Rightarrow> bool" where
  "numeric_example ex \<longleftrightarrow>
     CHR ''?'' \<notin> set (ex_scpi ex)
     \<and> (case rev (split_ws (ex_scpi ex)) of
           value_part # p # ps \<Rightarrow> plain_number value_part
         | _ \<Rightarrow> False)"

definition example_step :: "example list option \<Rightarrow> param_state \<Rightarrow> param_state" where
  "example_step exs st =
     (if ''value'' \<notin> set (snd st) \<and> list_ex numeric_example (or_empty exs)
      then add_param ''value''
             (fast_param ''value'' Number (Some (PInt 1)) None (Some ''Numeric value'')) st
      else st)"

text \<open>The generic value of a command whose description says that it sets something.\<close>

definition description_step ::
    "string \<Rightarrow> string \<Rightarrow> string list \<Rightarrow> string \<Rightarrow> param_state \<Rightarrow> param_state" where
  "description_step cmd_key desc set_syntax_lines args_text st =
     (if ''value'' \<notin> set (snd st) \<and> contains (lower desc) ''sets'' \<and> \<not> endswith cmd_key ''?''
         \<and> set_syntax_lines \<noteq> []
         \<and> (re_search (lit_ci ''<NR'' @ [ci_class ''123''] @ lit_ci ''>'') args_text
             \<or> contains (lower args_text) ''number'')
      then add_param ''value''
             (fast_param ''value'' Number (Some (PInt 1)) None (Some ''Numeric value'')) st
      else st)"

definition fast_params :: "string \<Rightarrow> cmd \<Rightarrow> param list" where
  "fast_params cmd_key c =
     (let st0 = foldl (\<lambda>st entry. mnemonic_step cmd_key entry st) ([], []) MNEMONIC_DEFINITIONS;
          st1 = header_enum_step cmd_key st0;
          set_syntax_lines = set_syntax_lines_of cmd_key (cmd_syntax c);
          args_text = or_empty (arguments c);
          combined_text = join '' '' set_syntax_lines @ '' '' @ args_text;
          st2 = numeric_step combined_text st1;
          st3 = qstring_step combined_text st2;
          st4 = brace_steps set_syntax_lines st3;
          st5 = example_step (examples c) st4;
          st6 = description_step cmd_key (or_empty (description c)) set_syntax_lines args_text st5
      in fst st6)"

section \<open>Sample documents\<close>

text \<open>
  Paragraphs for concrete runs: a header paragraph is set in bold Tahoma, a body
  paragraph in plain Arial, a syntax paragraph in Courier New.
\<close>

definition styled :: "string \<Rightarrow> bool \<Rightarrow> string \<Rightarrow> docx_paragraph" where
  "styled font b t =
     \<lparr>para_text = t,
      runs = [\<lparr>run_text = t, font_name = Some font, style_font_name = None, run_bold = b\<rparr>],
      style_bold = False\<rparr>"

definition header_para :: "string \<Rightarrow> docx_paragraph" where
  "header_para t = styled ''Tahoma'' True t"

definition body_para :: "string \<Rightarrow> docx_paragraph" where
  "body_para t = styled ''Arial'' False t"

definition code_para :: "string \<Rightarrow> docx_paragraph" where
  "code_para t = styled ''Courier New'' False t"

definition acquire_groups :: command_groups where
  "acquire_groups = [(''Acquisition'', [''ACQuire:STATE'', ''ACQuire:MODe''])]"

text \<open>A record as it is right after its header, and a record with a given description.\<close>

definition blank_cmd :: "string \<Rightarrow> cmd" where
  "blank_cmd k = new_cmd [] k"

definition described :: "string \<Rightarrow> string \<Rightarrow> cmd" where
  "described k d = (blank_cmd k)\<lparr>description := Some d\<rparr>"


text \<open>
  A short manual: front matter, then two commands; and the example line of Scenario E
  of the specification.
\<close>

definition sample_doc :: "docx_paragraph list" where
  "sample_doc =
     [body_para ''Table of Contents'',
      header_para ''ACQuire:STATE'',
      body_para ''Sets or queries the acquisition state.'',
      body_para ''Syntax'',
      code_para ''ACQuire:STATE {ON|OFF} ACQuire:STATE?'',
      header_para ''ACQuire:MODe'',
      body_para ''Sets the acquisition mode.'']"

definition scenario_e :: string where
  "scenario_e =
     ''SEARCH:SEARCH1:TRIGger:A:LOGIc:WHEn FALSE might return TRUE indicating the search criteria''"

section \<open>Specification predicates\<close>


text \<open>
  A block that \<open>extract_commands\<close> classifies as a header: its text is not blank and the
  header test holds. \<open>open_records\<close> counts the open record of a scanner state.
\<close>

definition classified_header :: "command_groups \<Rightarrow> docx_paragraph \<Rightarrow> bool" where
  "classified_header cg para \<longleftrightarrow> strip (para_text para) \<noteq> [] \<and> is_header cg para"

definition open_records :: "scanner \<Rightarrow> nat" where
  "open_records s = (case sc_current_cmd s of None \<Rightarrow> 0 | Some c \<Rightarrow> 1)"

text \<open>
  A block that the loop of \<open>extract_fast.py\<close> treats as content: it is neither a section
  keyword nor a header.
\<close>

definition content_block :: "command_groups \<Rightarrow> docx_paragraph \<Rightarrow> bool" where
  "content_block cg para \<longleftrightarrow>
     section_keyword (lower (strip (para_text para))) = None \<and> header_match cg para = None"

text \<open>
  A value-parameter: an integer, float or string parameter that is not a path-parameter
  of the header (the names that \<open>detect_params\<close> itself lists as such).
\<close>

definition is_value_param :: "param \<Rightarrow> bool" where
  "is_value_param p \<longleftrightarrow> param_type p \<noteq> Enumeration \<and> param_name p \<notin> set path_names"

definition is_enumeration :: "param \<Rightarrow> bool" where
  "is_enumeration p \<longleftrightarrow> param_type p = Enumeration"

text \<open>
  In \<open>extract_fast.py\<close> the parameter of the command's argument is the one named \<open>value\<close>
  or \<open>source\<close>; the parameters of the header have the names of \<open>MNEMONIC_DEFINITIONS\<close> and
  \<open>trigger_type\<close>.
\<close>

definition is_argument_param :: "param \<Rightarrow> bool" where
  "is_argument_param p \<longleftrightarrow> param_name p \<in> set [''value'', ''source'']"

text \<open>
  The invariant of the parameter state of \<open>extract_fast.py\<close>: at most one argument
  parameter has been added, and once one has been added the name \<open>value\<close> is recorded.
\<close>

definition arg_inv :: "param_state \<Rightarrow> bool" where
  "arg_inv st \<longleftrightarrow> length (filter is_argument_param (fst st)) \<le> 1
     \<and> (filter is_argument_param (fst st) = [] \<or> ''value'' \<in> set (snd st))"

text \<open>
  A block that the loop of \<open>extract_fast.py\<close> takes as a header: it is not blank, not a
  note, not a section keyword, and the header test resolves a command.
\<close>

definition fast_header :: "command_groups \<Rightarrow> docx_paragraph \<Rightarrow> bool" where
  "fast_header cg para \<longleftrightarrow>
     strip (para_text para) \<noteq> []
     \<and> \<not> startswith (lower (strip (para_text para))) ''note''
     \<and> section_keyword (lower (strip (para_text para))) = None
     \<and> header_match cg para \<noteq> None"

text \<open>
  The records that the pass of \<open>extract_fast.py\<close> hands to the merge, in order: the open
  record at each header and the open record at the end of the stream, each as
  \<open>finalize_command\<close> stores it.
\<close>

definition finalized_now :: "command_groups \<Rightarrow> parser \<Rightarrow> cmd list" where
  "finalized_now cg p =
     (case current_cmd p of
        None \<Rightarrow> []
      | Some c \<Rightarrow> [normalize_cmd cg (save_section cg (state p) (buffer p) c)])"

fun finalized_records :: "command_groups \<Rightarrow> parser \<Rightarrow> docx_paragraph list \<Rightarrow> cmd list" where
  "finalized_records cg p [] = finalized_now cg p"
| "finalized_records cg p (para # paras) =
     (if fast_header cg para then finalized_now cg p else [])
     @ finalized_records cg (process_paragraph cg p para) paras"

definition open_cmds :: "parser \<Rightarrow> nat" where
  "open_cmds p = (case current_cmd p of None \<Rightarrow> 0 | Some c \<Rightarrow> 1)"


text \<open>
  The value of a merged field when the earlier record's value wins: the earlier value if
  it is not empty, else the later value if that is not empty, else the earlier value.
\<close>

definition first_wins :: "'a list option \<Rightarrow> 'a list option \<Rightarrow> 'a list option \<Rightarrow> bool" where
  "first_wins earlier later merged \<longleftrightarrow>
     merged = (if truthy earlier then earlier else if truthy later then later else earlier)"

text \<open>
  The set form and the query form that one syntax line yields on its own, and the first
  non-empty text of a list (the empty text if there is none).
\<close>

definition set_candidate :: "string \<Rightarrow> string \<Rightarrow> string" where
  "set_candidate cmd_key line = fst (split_line cmd_key ([], []) line)"

definition query_candidate :: "string \<Rightarrow> string \<Rightarrow> string" where
  "query_candidate cmd_key line = snd (split_line cmd_key ([], []) line)"

definition first_nonempty :: "string list \<Rightarrow> string" where
  "first_nonempty cs = (case List.find (\<lambda>c. c \<noteq> []) cs of None \<Rightarrow> [] | Some c \<Rightarrow> c)"

text \<open>
  The options that a brace group contributes to an enumeration in \<open>detect_params\<close>: its
  options without the placeholder options, with the wildcards expanded.
\<close>

definition brace_options :: "string \<Rightarrow> string list" where
  "brace_options m =
     expand_wildcards (filter (\<lambda>o'. \<not> placeholder_option o')
        (filter (\<lambda>o'. o' \<noteq> []) (map strip (split_char (CHR ''|'') m))))"

section \<open>Verified properties\<close>

subsection \<open>Wildcard expansion\<close>

lemma dedup_seen_notin: "x \<in> set (dedup_seen seen xs) \<Longrightarrow> x \<notin> set seen"
proof (induction xs arbitrary: seen)
  case Nil
  then show ?case by simp
next
  case (Cons y ys)
  show ?case
  proof (cases "y \<in> set seen")
    case True
    with Cons show ?thesis by simp
  next
    case False
    with Cons.prems have "x = y \<or> x \<in> set (dedup_seen (y # seen) ys)" by simp
    then show ?thesis
    proof
      assume "x = y"
      with False show ?thesis by simp
    next
      assume "x \<in> set (dedup_seen (y # seen) ys)"
      from Cons.IH [OF this] show ?thesis by simp
    qed
  qed
qed

lemma dedup_seen_distinct: "distinct (dedup_seen seen xs)"
proof (induction xs arbitrary: seen)
  case Nil
  show ?case by simp
next
  case (Cons x xs)
  have "x \<notin> set (dedup_seen (x # seen) xs)"
    using dedup_seen_notin [of x "x # seen" xs] by auto
  with Cons show ?case by simp
qed

text \<open>The result never repeats an entry and never has more than 50 entries.\<close>

lemma expand_wildcards_distinct: "distinct (expand_wildcards opts)"
  by (simp add: expand_wildcards_def dedup_seen_distinct)

lemma expand_wildcards_length: "length (expand_wildcards opts) \<le> 50"
  by (simp add: expand_wildcards_def)

text \<open>
  The branch for \<open>SEARCH<x>\<close> can never be taken: \<open>re.search\<close> looks for the pattern
  anywhere in the option, and every text containing \<open>SEARCH<x>\<close> contains \<open>CH<x>\<close>,
  which an earlier branch tests.
\<close>

lemma match_here_append: "match_here (p1 @ p2) s \<Longrightarrow> match_here p2 (drop (length p1) s)"
proof (induction p1 arbitrary: s)
  case Nil
  then show ?case by simp
next
  case (Cons a p1)
  then show ?case by (cases s) auto
qed

lemma re_search_drop: "re_search pat (drop n s) \<Longrightarrow> re_search pat s"
proof (induction s arbitrary: n)
  case Nil
  then show ?case by simp
next
  case (Cons c cs)
  show ?case
  proof (cases n)
    case 0
    with Cons.prems show ?thesis by simp
  next
    case (Suc m)
    with Cons.prems have "re_search pat (drop m cs)" by simp
    from Cons.IH [OF this] show ?thesis by simp
  qed
qed

lemma match_here_re_search: "match_here pat s \<Longrightarrow> re_search pat s"
  by (cases s) auto

lemma re_search_append: "re_search (p1 @ p2) s \<Longrightarrow> re_search p2 s"
proof (induction s)
  case Nil
  then have "match_here p2 (drop (length p1) [])"
    using match_here_append [of p1 p2 "[]"] by simp
  then show ?case by simp
next
  case (Cons c cs)
  from Cons.prems have "match_here (p1 @ p2) (c # cs) \<or> re_search (p1 @ p2) cs" by simp
  then show ?case
  proof
    assume "match_here (p1 @ p2) (c # cs)"
    then have "match_here p2 (drop (length p1) (c # cs))" by (rule match_here_append)
    then have "re_search p2 (drop (length p1) (c # cs))" by (rule match_here_re_search)
    then show ?thesis by (rule re_search_drop)
  next
    assume "re_search (p1 @ p2) cs"
    then have "re_search p2 cs" by (rule Cons.IH)
    then show ?thesis by simp
  qed
qed

lemma search_branch_shadowed:
  "re_search (indexed ''SEARCH'') opt \<Longrightarrow> re_search (indexed ''CH'') opt"
proof -
  have "indexed ''SEARCH'' = lit_ci ''SEAR'' @ indexed ''CH''"
    by (simp add: indexed_def lit_ci_def)
  then show "re_search (indexed ''SEARCH'') opt \<Longrightarrow> re_search (indexed ''CH'') opt"
    using re_search_append by simp
qed

text \<open>
  Claim C10. Wildcard expansion returns a duplicate-free list of at most 50 entries in
  first-occurrence order, in which every indexed-family placeholder is replaced by the
  numbered members of its own family. The code does not do this for the \<open>SEARCH<x>\<close>
  family: the option \<open>SEARCH<x>\<close> is expanded to the channel family
  \<open>CH1\<close> .. \<open>CH8\<close> instead of \<open>SEARCH1\<close> .. \<open>SEARCH8\<close>.
\<close>

theorem expand_wildcards_search_gives_channels:
  "expand_wildcards [''SEARCH<x>''] =
     [''CH1'', ''CH2'', ''CH3'', ''CH4'', ''CH5'', ''CH6'', ''CH7'', ''CH8'']"
  by code_simp

subsection \<open>Canonical lookup\<close>




text \<open>
  The digit rule of \<open>is_command_in_master_list\<close> never resolves a token: the substituted
  \<open><x>\<close> has a lower-case letter and the text it is compared with is upper-cased, so the
  lookup is the direct match alone.
\<close>

lemma upper_char_not_lower: "\<not> is_lower_char (upper_char c)"
  by (auto simp: upper_char_def is_lower_char_def ascii_lowercase_def ascii_uppercase_def
      split: option.splits if_splits)

lemma upper_no_x: "CHR ''x'' \<notin> set (upper s)"
proof
  assume "CHR ''x'' \<in> set (upper s)"
  then obtain c where "upper_char c = CHR ''x''" by (auto simp: upper_def)
  with upper_char_not_lower [of c] show False
    by (simp add: is_lower_char_def ascii_lowercase_def)
qed

lemma sub_digits_without_x:
  "CHR ''x'' \<notin> set (sub_digits_run False t) \<Longrightarrow> sub_digits_run False t = t"
  by (induction t) (auto split: if_splits)

lemma digit_rule_never_matches:
  "is_command_in_master_list cg text
   = (if text = [] then None
      else List.find (\<lambda>c. upper c = strip (upper text)) (ALL_COMMANDS cg))"
proof (cases "text = []")
  case True
  then show ?thesis by (simp add: is_command_in_master_list_def)
next
  case False
  let ?t = "strip (upper text)"
  show ?thesis
  proof (cases "List.find (\<lambda>c. upper c = ?t) (ALL_COMMANDS cg)")
    case (Some c)
    with False show ?thesis by (simp add: is_command_in_master_list_def)
  next
    case None
    have "List.find (\<lambda>cmd. sub_digits ?t = upper cmd) (ALL_COMMANDS cg) = None"
    proof (rule ccontr)
      assume "List.find (\<lambda>cmd. sub_digits ?t = upper cmd) (ALL_COMMANDS cg) \<noteq> None"
      then obtain c where c: "c \<in> set (ALL_COMMANDS cg)" "sub_digits ?t = upper c"
        by (auto simp: find_None_iff)
      from c(2) upper_no_x [of c] have "CHR ''x'' \<notin> set (sub_digits_run False ?t)"
        by (simp add: sub_digits_def)
      then have "sub_digits_run False ?t = ?t" by (rule sub_digits_without_x)
      then have "sub_digits ?t = ?t" by (simp add: sub_digits_def)
      with c have "c \<in> set (ALL_COMMANDS cg) \<and> upper c = ?t" by simp
      with None show False by (auto simp: find_None_iff)
    qed
    with None False show ?thesis by (simp add: is_command_in_master_list_def)
  qed
qed

subsection \<open>Merging records of the same mnemonic\<close>

lemma merge_existing_related:
  "relatedCommands (merge_existing existing cur) = relatedCommands existing"
  by (simp add: merge_existing_def)

lemma merge_syntax_set:
  "set (cmd_syntax (merge_existing a b)) = set (cmd_syntax a) \<union> set (cmd_syntax b)"
  by (auto simp: merge_existing_def)

lemma merge_syntax_distinct:
  "distinct (cmd_syntax a) \<Longrightarrow> distinct (cmd_syntax b) \<Longrightarrow> distinct (cmd_syntax (merge_existing a b))"
  by (auto simp: merge_existing_def)

text \<open>
  Claim C2. Two records of the same mnemonic are merged into the earlier one, and the
  related-commands lists are unioned. In \<open>extract_fast.py\<close> the merge leaves
  \<open>relatedCommands\<close> of the stored record as it is (\<open>merge_existing_related\<close>). A document
  with one header \<open>ACQuire:STATE\<close> followed by its related commands yields the related
  command; the same document with an earlier header of the same mnemonic, which has only
  a description, loses it.
\<close>

theorem merge_drops_related_commands:
  "map_option relatedCommands (map_of (extract_fast acquire_groups
      [header_para ''ACQuire:STATE'', body_para ''Related Commands'', body_para ''ACQuire:MODe''])
      ''ACQuire:STATE'') = Some (Some [''ACQuire:MODe''])
   \<and> map_option relatedCommands (map_of (extract_fast acquire_groups
      [header_para ''ACQuire:STATE'', body_para ''Sets the acquisition state.'',
       header_para ''ACQuire:STATE'', body_para ''Related Commands'', body_para ''ACQuire:MODe''])
      ''ACQuire:STATE'') = Some None"
  by code_simp

text \<open>
  Claim C3, as stated: merging A then B gives the same record as merging B then A. Two
  records of \<open>*IDN?\<close> with different descriptions: the description stored first stays.
\<close>

theorem merge_order_counterexample:
  "map_option description (map_of (store (described ''*IDN?'' ''first'')
        (store (described ''*IDN?'' ''second'') [])) ''*IDN?'') = Some (Some ''second'')
   \<and> map_option description (map_of (store (described ''*IDN?'' ''second'')
        (store (described ''*IDN?'' ''first'') [])) ''*IDN?'') = Some (Some ''first'')"
  by code_simp

lemma store_twice:
  "scpi a = scpi b \<Longrightarrow> store b (store a []) = [(scpi a, merge_existing a b)]"
  by (simp add: store_def)

lemma absorb_first_wins: "first_wins x y (absorb x y)"
  by (simp add: first_wins_def absorb_def)

lemma merge_existing_syntax:
  "cmd_syntax (merge_existing a b)
   = cmd_syntax a @ filter (\<lambda>s. s \<notin> set (cmd_syntax a)) (cmd_syntax b)"
  by (simp add: merge_existing_def)

text \<open>
  Claim C3, amended: for two records of the same mnemonic, both merge orders give the same
  set of syntax lines, and the same value in each of the fields description, group,
  arguments, examples, conditions and returns in which exactly one of the two records is
  non-empty or both have the same value. In every one of these fields the record merged
  first wins: the merged value is the earlier record's value unless that is empty and the
  later one's is not. The merged syntax list is the earlier list followed by the later
  record's lines that the earlier list does not have.
\<close>

theorem merge_order:
  assumes "scpi a = scpi b"
  shows "\<exists>ab ba. map_of (store b (store a [])) (scpi a) = Some ab
           \<and> map_of (store a (store b [])) (scpi a) = Some ba
           \<and> set (cmd_syntax ab) = set (cmd_syntax ba)
           \<and> (truthy (description a) \<noteq> truthy (description b) \<or> description a = description b
                \<longrightarrow> description ab = description ba)
           \<and> (truthy (group a) \<noteq> truthy (group b) \<or> group a = group b
                \<longrightarrow> group ab = group ba)
           \<and> (truthy (arguments a) \<noteq> truthy (arguments b) \<or> arguments a = arguments b
                \<longrightarrow> arguments ab = arguments ba)
           \<and> (truthy (examples a) \<noteq> truthy (examples b) \<or> examples a = examples b
                \<longrightarrow> examples ab = examples ba)
           \<and> (truthy (conditions a) \<noteq> truthy (conditions b) \<or> conditions a = conditions b
                \<longrightarrow> conditions ab = conditions ba)
           \<and> (truthy (returns a) \<noteq> truthy (returns b) \<or> returns a = returns b
                \<longrightarrow> returns ab = returns ba)
           \<and> first_wins (description a) (description b) (description ab)
           \<and> first_wins (description b) (description a) (description ba)
           \<and> first_wins (group a) (group b) (group ab)
           \<and> first_wins (group b) (group a) (group ba)
           \<and> first_wins (arguments a) (arguments b) (arguments ab)
           \<and> first_wins (arguments b) (arguments a) (arguments ba)
           \<and> first_wins (examples a) (examples b) (examples ab)
           \<and> first_wins (examples b) (examples a) (examples ba)
           \<and> first_wins (conditions a) (conditions b) (conditions ab)
           \<and> first_wins (conditions b) (conditions a) (conditions ba)
           \<and> first_wins (returns a) (returns b) (returns ab)
           \<and> first_wins (returns b) (returns a) (returns ba)
           \<and> cmd_syntax ab
               = cmd_syntax a @ filter (\<lambda>s. s \<notin> set (cmd_syntax a)) (cmd_syntax b)
           \<and> cmd_syntax ba
               = cmd_syntax b @ filter (\<lambda>s. s \<notin> set (cmd_syntax b)) (cmd_syntax a)"
proof -
  have ab: "map_of (store b (store a [])) (scpi a) = Some (merge_existing a b)"
    using assms by (simp add: store_twice)
  have ba: "map_of (store a (store b [])) (scpi a) = Some (merge_existing b a)"
    using assms store_twice [of b a] by simp
  have syn: "set (cmd_syntax (merge_existing a b)) = set (cmd_syntax (merge_existing b a))"
    by (auto simp: merge_syntax_set)
  have fields: "description (merge_existing a b) = absorb (description a) (description b)"
    "group (merge_existing a b) = absorb (group a) (group b)"
    "arguments (merge_existing a b) = absorb (arguments a) (arguments b)"
    "examples (merge_existing a b) = absorb (examples a) (examples b)"
    "conditions (merge_existing a b) = absorb (conditions a) (conditions b)"
    "returns (merge_existing a b) = absorb (returns a) (returns b)" for a b
    by (simp_all add: merge_existing_def)
  have agree: "truthy x \<noteq> truthy y \<or> x = y \<longrightarrow> absorb x y = absorb y x"
    for x y :: "'a list option"
    by (auto simp: absorb_def)
  show ?thesis
    apply (rule exI [of _ "merge_existing a b"])
    apply (rule exI [of _ "merge_existing b a"])
    apply (intro conjI)
    apply (rule ab)
    apply (rule ba)
    apply (rule syn)
    apply (simp only: fields, rule agree)+
    apply (simp only: fields, rule absorb_first_wins)+
    apply (rule merge_existing_syntax)+
    done
qed

text \<open>
  The two records of Scenario B (one has only a description, the other only a syntax
  line): either order gives the description and the syntax line. Two records with
  different descriptions: each order keeps the description merged first.
\<close>

theorem merge_order_witness:
  "(\<exists>ab ba. map_of (store ((blank_cmd ''*IDN?'')\<lparr>cmd_syntax := [''*IDN?'']\<rparr>)
                 (store (described ''*IDN?'' ''Returns the identification.'') [])) ''*IDN?'' = Some ab
       \<and> map_of (store (described ''*IDN?'' ''Returns the identification.'')
                 (store ((blank_cmd ''*IDN?'')\<lparr>cmd_syntax := [''*IDN?'']\<rparr>) [])) ''*IDN?'' = Some ba
       \<and> set (cmd_syntax ab) = set (cmd_syntax ba)
       \<and> description ab = description ba)
   \<and> (\<exists>ab ba. map_of (store (described ''*IDN?'' ''second'')
                 (store (described ''*IDN?'' ''first'') [])) ''*IDN?'' = Some ab
       \<and> map_of (store (described ''*IDN?'' ''first'')
                 (store (described ''*IDN?'' ''second'') [])) ''*IDN?'' = Some ba
       \<and> description ab = Some ''first'' \<and> description ba = Some ''second'')"
proof
  let ?a = "described ''*IDN?'' ''Returns the identification.''"
  let ?b = "(blank_cmd ''*IDN?'')\<lparr>cmd_syntax := [''*IDN?'']\<rparr>"
  have k: "scpi ?a = scpi ?b"
    by (simp add: described_def blank_cmd_def new_cmd_def)
  have ka: "scpi ?a = ''*IDN?''"
    by (simp add: described_def blank_cmd_def new_cmd_def)
  have t: "truthy (description ?a) \<noteq> truthy (description ?b)"
    by (simp add: described_def blank_cmd_def new_cmd_def truthy_def)
  from merge_order [OF k] obtain ab ba where
    "map_of (store ?b (store ?a [])) (scpi ?a) = Some ab"
    "map_of (store ?a (store ?b [])) (scpi ?a) = Some ba"
    "set (cmd_syntax ab) = set (cmd_syntax ba)"
    "truthy (description ?a) \<noteq> truthy (description ?b) \<or> description ?a = description ?b
       \<longrightarrow> description ab = description ba"
    by blast
  with t show "\<exists>ab ba. map_of (store ?b (store ?a [])) ''*IDN?'' = Some ab
       \<and> map_of (store ?a (store ?b [])) ''*IDN?'' = Some ba
       \<and> set (cmd_syntax ab) = set (cmd_syntax ba)
       \<and> description ab = description ba"
    unfolding ka by blast
next
  let ?a = "described ''*IDN?'' ''first''"
  let ?b = "described ''*IDN?'' ''second''"
  have k: "scpi ?a = scpi ?b"
    by (simp add: described_def blank_cmd_def new_cmd_def)
  have ka: "scpi ?a = ''*IDN?''"
    by (simp add: described_def blank_cmd_def new_cmd_def)
  have fa: "first_wins (description ?a) (description ?b) x \<longleftrightarrow> x = Some ''first''" for x
    by (simp add: first_wins_def described_def blank_cmd_def new_cmd_def truthy_def)
  have fb: "first_wins (description ?b) (description ?a) x \<longleftrightarrow> x = Some ''second''" for x
    by (simp add: first_wins_def described_def blank_cmd_def new_cmd_def truthy_def)
  from merge_order [OF k] obtain ab ba where
    "map_of (store ?b (store ?a [])) (scpi ?a) = Some ab"
    "map_of (store ?a (store ?b [])) (scpi ?a) = Some ba"
    "first_wins (description ?a) (description ?b) (description ab)"
    "first_wins (description ?b) (description ?a) (description ba)"
    by blast
  then show "\<exists>ab ba. map_of (store ?b (store ?a [])) ''*IDN?'' = Some ab
       \<and> map_of (store ?a (store ?b [])) ''*IDN?'' = Some ba
       \<and> description ab = Some ''first'' \<and> description ba = Some ''second''"
    unfolding ka fa fb by blast
qed

subsection \<open>The group of a finalized record\<close>
































subsection \<open>The single pass over the blocks\<close>

lemma scan_step_count:
  "length (sc_commands (scan_paragraph cg s para)) + open_records (scan_paragraph cg s para)
   = length (sc_commands s) + open_records s + (if classified_header cg para then 1 else 0)"
  by (auto simp: scan_paragraph_def scan_content_def Let_def open_records_def classified_header_def
      is_header_def split: option.splits)

lemma scan_fold_count:
  "length (sc_commands (foldl (scan_paragraph cg) s paras))
     + open_records (foldl (scan_paragraph cg) s paras)
   = length (sc_commands s) + open_records s + length (filter (classified_header cg) paras)"
proof (induction paras arbitrary: s)
  case Nil
  show ?case by simp
next
  case (Cons para paras)
  show ?case
    using Cons.IH [of "scan_paragraph cg s para"] scan_step_count [of cg s para] by simp
qed

lemma close_scanner_length: "length (close_scanner s) = length (sc_commands s) + open_records s"
  by (simp add: close_scanner_def open_records_def split: option.splits)

lemma open_records_le: "open_records s \<le> 1"
  by (simp add: open_records_def split: option.splits)

lemma header_closes_previous:
  "classified_header cg para \<Longrightarrow>
     sc_commands (scan_paragraph cg s para) = close_scanner s
     \<and> open_records (scan_paragraph cg s para) = 1"
  by (auto simp: scan_paragraph_def Let_def open_records_def classified_header_def close_scanner_def
      is_header_def split: option.splits)

text \<open>
  The pass of \<open>extract_fast.py\<close> merges each record as soon as it is finalized;
  \<open>finalized_records\<close> lists the records it hands to the merge, and the stored commands
  are the merge of exactly these records in order.
\<close>

lemma finalize_commands:
  "commands (finalize_command cg p) = foldl (\<lambda>cmds c. store c cmds) (commands p) (finalized_now cg p)"
  by (simp add: finalize_command_def finalized_now_def split: option.splits)

lemma header_step:
  "fast_header cg para \<Longrightarrow>
     commands (process_paragraph cg p para) = commands (finalize_command cg p)
     \<and> open_cmds (process_paragraph cg p para) = 1"
  by (auto simp: fast_header_def process_paragraph_def Let_def open_cmds_def)

lemma other_step:
  "\<not> fast_header cg para \<Longrightarrow>
     commands (process_paragraph cg p para) = commands p
     \<and> open_cmds (process_paragraph cg p para) = open_cmds p"
  by (auto simp: fast_header_def process_paragraph_def Let_def open_cmds_def enter_section_def
      save_current_section_def capture_content_def split: option.splits)

lemma finalized_records_merge:
  "commands (finalize_command cg (foldl (process_paragraph cg) p paras))
   = foldl (\<lambda>cmds c. store c cmds) (commands p) (finalized_records cg p paras)"
proof (induction paras arbitrary: p)
  case Nil
  show ?case by (simp add: finalize_commands)
next
  case (Cons para paras)
  show ?case
  proof (cases "fast_header cg para")
    case True
    with header_step [OF True, of p] Cons.IH [of "process_paragraph cg p para"]
    show ?thesis by (simp add: finalize_commands)
  next
    case False
    with other_step [OF False, of p] Cons.IH [of "process_paragraph cg p para"]
    show ?thesis by simp
  qed
qed

lemma finalized_now_length: "length (finalized_now cg p) = open_cmds p"
  by (simp add: finalized_now_def open_cmds_def split: option.splits)

lemma finalized_records_length:
  "length (finalized_records cg p paras) = open_cmds p + length (filter (fast_header cg) paras)"
proof (induction paras arbitrary: p)
  case Nil
  show ?case by (simp add: finalized_now_length)
next
  case (Cons para paras)
  show ?case
  proof (cases "fast_header cg para")
    case True
    with header_step [OF True, of p] Cons.IH [of "process_paragraph cg p para"]
    show ?thesis by (simp add: finalized_now_length)
  next
    case False
    with other_step [OF False, of p] Cons.IH [of "process_paragraph cg p para"]
    show ?thesis by simp
  qed
qed

lemma extract_fast_merges_finalized:
  "extract_fast cg paras
   = foldl (\<lambda>cmds c. store c cmds) [] (finalized_records cg initial_parser paras)"
  using finalized_records_merge [of cg initial_parser paras]
  by (simp add: extract_fast_def initial_parser_def)

lemma fast_header_count:
  "length (finalized_records cg initial_parser paras) = length (filter (fast_header cg) paras)"
  using finalized_records_length [of cg initial_parser paras]
  by (simp add: open_cmds_def initial_parser_def)

lemma dict_set_length: "length (dict_set k v cmds) \<le> Suc (length cmds)"
  by (induction cmds) auto

lemma store_length: "length (store c cmds) \<le> Suc (length cmds)"
  by (simp add: store_def dict_set_length split: option.splits)

lemma store_fold_length: "length (foldl (\<lambda>cmds c. store c cmds) cmds cs) \<le> length cmds + length cs"
proof (induction cs arbitrary: cmds)
  case Nil
  show ?case by simp
next
  case (Cons c cs)
  from Cons.IH [of "store c cmds"] store_length [of c cmds] show ?case by simp
qed

lemma extract_fast_length: "length (extract_fast cg paras) \<le> length (filter (fast_header cg) paras)"
  using store_fold_length [of "[]" "finalized_records cg initial_parser paras"]
  by (simp add: extract_fast_merges_finalized fast_header_count)

lemma header_step_explicit:
  "fast_header cg para \<Longrightarrow>
     (current_cmd p = None \<longrightarrow> commands (process_paragraph cg p para) = commands p)
     \<and> (\<forall>c. current_cmd p = Some c \<longrightarrow>
           commands (process_paragraph cg p para)
           = store (normalize_cmd cg (save_section cg (state p) (buffer p) c)) (commands p))
     \<and> header_match cg para \<noteq> None
     \<and> current_cmd (process_paragraph cg p para) = map_option (new_cmd cg) (header_match cg para)
     \<and> state (process_paragraph cg p para) = DESCRIPTION
     \<and> buffer (process_paragraph cg p para) = []"
  by (auto simp: fast_header_def process_paragraph_def Let_def finalize_command_def)

text \<open>
  Claim C7. In the pass of \<open>extract_commands\<close> over any block stream, after any number of
  blocks the finalized records and the open record together are as many as the header
  blocks seen, and at most one record is open; a header block finalizes the open record
  (the finalized list becomes what closing the scanner would give) and opens a new one;
  at the end of the stream the finalized records are as many as the header blocks. In the
  pass of \<open>extract_fast.py\<close> a header block stores the open record, with its pending
  section saved and its fields normalized, into the commands by the merge, opens the new
  record of the matched command with an empty buffer in the description section, and
  leaves exactly one record open; any other block leaves the stored commands and the
  number of open records as they are. The records handed to the merge are as many as the
  header blocks, the result of the pass is the merge of exactly these records in order,
  and it has at most as many entries as there are header blocks.
\<close>

theorem header_exclusivity:
  "length (sc_commands (foldl (scan_paragraph cg) initial_scanner paras))
     + open_records (foldl (scan_paragraph cg) initial_scanner paras)
     = length (filter (classified_header cg) paras)
   \<and> open_records (foldl (scan_paragraph cg) initial_scanner paras) \<le> 1
   \<and> length (extract_commands cg paras) = length (filter (classified_header cg) paras)
   \<and> (classified_header cg para \<longrightarrow>
        sc_commands (scan_paragraph cg s para) = close_scanner s
        \<and> open_records (scan_paragraph cg s para) = 1)
   \<and> length (finalized_records cg initial_parser paras) = length (filter (fast_header cg) paras)
   \<and> (fast_header cg para \<longrightarrow>
        commands (process_paragraph cg p para) = commands (finalize_command cg p)
        \<and> open_cmds (process_paragraph cg p para) = 1)
   \<and> extract_fast cg paras
       = foldl (\<lambda>cmds c. store c cmds) [] (finalized_records cg initial_parser paras)
   \<and> length (extract_fast cg paras) \<le> length (filter (fast_header cg) paras)
   \<and> (fast_header cg para \<longrightarrow>
        (current_cmd p = None \<longrightarrow> commands (process_paragraph cg p para) = commands p)
        \<and> (\<forall>c. current_cmd p = Some c \<longrightarrow>
              commands (process_paragraph cg p para)
              = store (normalize_cmd cg (save_section cg (state p) (buffer p) c)) (commands p))
        \<and> header_match cg para \<noteq> None
        \<and> current_cmd (process_paragraph cg p para)
            = map_option (new_cmd cg) (header_match cg para)
        \<and> state (process_paragraph cg p para) = DESCRIPTION
        \<and> buffer (process_paragraph cg p para) = [])
   \<and> (\<not> fast_header cg para \<longrightarrow>
        commands (process_paragraph cg p para) = commands p
        \<and> open_cmds (process_paragraph cg p para) = open_cmds p)"
proof -
  have i: "length (sc_commands initial_scanner) + open_records initial_scanner = 0"
    by (simp add: initial_scanner_def open_records_def)
  have a: "length (sc_commands (foldl (scan_paragraph cg) initial_scanner paras))
     + open_records (foldl (scan_paragraph cg) initial_scanner paras)
     = length (filter (classified_header cg) paras)"
    using scan_fold_count [of cg initial_scanner paras] i by simp
  then have c: "length (extract_commands cg paras) = length (filter (classified_header cg) paras)"
    by (simp add: extract_commands_def close_scanner_length)
  have scan: "classified_header cg para \<longrightarrow>
        sc_commands (scan_paragraph cg s para) = close_scanner s
        \<and> open_records (scan_paragraph cg s para) = 1"
    using header_closes_previous by blast
  have h: "fast_header cg para \<longrightarrow>
        commands (process_paragraph cg p para) = commands (finalize_command cg p)
        \<and> open_cmds (process_paragraph cg p para) = 1"
    using header_step by blast
  have e: "fast_header cg para \<longrightarrow>
        (current_cmd p = None \<longrightarrow> commands (process_paragraph cg p para) = commands p)
        \<and> (\<forall>c. current_cmd p = Some c \<longrightarrow>
              commands (process_paragraph cg p para)
              = store (normalize_cmd cg (save_section cg (state p) (buffer p) c)) (commands p))
        \<and> header_match cg para \<noteq> None
        \<and> current_cmd (process_paragraph cg p para)
            = map_option (new_cmd cg) (header_match cg para)
        \<and> state (process_paragraph cg p para) = DESCRIPTION
        \<and> buffer (process_paragraph cg p para) = []"
    using header_step_explicit [of cg para p] by blast
  have n: "\<not> fast_header cg para \<longrightarrow>
        commands (process_paragraph cg p para) = commands p
        \<and> open_cmds (process_paragraph cg p para) = open_cmds p"
    using other_step by blast
  show ?thesis
    apply (intro conjI)
    apply (rule a)
    apply (rule open_records_le)
    apply (rule c)
    apply (rule scan)
    apply (rule fast_header_count)
    apply (rule h)
    apply (rule extract_fast_merges_finalized)
    apply (rule extract_fast_length)
    apply (rule e)
    apply (rule n)
    done
qed

theorem header_exclusivity_witness:
  "length (extract_commands acquire_groups sample_doc) = 2
   \<and> sc_commands (scan_paragraph acquire_groups initial_scanner (header_para ''ACQuire:STATE''))
       = close_scanner initial_scanner
   \<and> open_records (scan_paragraph acquire_groups initial_scanner (header_para ''ACQuire:STATE'')) = 1
   \<and> length (finalized_records acquire_groups initial_parser sample_doc) = 2
   \<and> open_cmds (process_paragraph acquire_groups initial_parser (header_para ''ACQuire:STATE'')) = 1
   \<and> length (extract_fast acquire_groups sample_doc) \<le> 2
   \<and> commands (process_paragraph acquire_groups initial_parser (header_para ''ACQuire:STATE'')) = []
   \<and> current_cmd (process_paragraph acquire_groups initial_parser (header_para ''ACQuire:STATE''))
       = Some (new_cmd acquire_groups ''ACQuire:STATE'')
   \<and> map (\<lambda>kv. (fst kv, group (snd kv), description (snd kv)))
         (commands (process_paragraph acquire_groups
            (process_paragraph acquire_groups initial_parser (header_para ''ACQuire:STATE''))
            (header_para ''ACQuire:MODe'')))
       = [(''ACQuire:STATE'', Some ''Acquisition'', Some [])]
   \<and> commands (process_paragraph acquire_groups initial_parser (body_para ''Table of Contents'')) = []"
proof -
  let ?h = "header_para ''ACQuire:STATE''"
  let ?p = "process_paragraph acquire_groups initial_parser ?h"
  have h: "classified_header acquire_groups ?h" by code_simp
  have n: "length (filter (classified_header acquire_groups) sample_doc) = 2" by code_simp
  have h': "fast_header acquire_groups ?h" by code_simp
  have n': "length (filter (fast_header acquire_groups) sample_doc) = 2" by code_simp
  have m: "header_match acquire_groups ?h = Some ''ACQuire:STATE''" by code_simp
  have h2: "fast_header acquire_groups (header_para ''ACQuire:MODe'')" by code_simp
  have b: "\<not> fast_header acquire_groups (body_para ''Table of Contents'')" by code_simp
  have i: "current_cmd initial_parser = None" "commands initial_parser = []"
    by (simp_all add: initial_parser_def)
  note first = header_exclusivity [of acquire_groups sample_doc ?h initial_scanner initial_parser]
  have c1: "length (extract_commands acquire_groups sample_doc)
            = length (filter (classified_header acquire_groups) sample_doc)"
    using first by blast
  have c2: "sc_commands (scan_paragraph acquire_groups initial_scanner ?h) = close_scanner initial_scanner
            \<and> open_records (scan_paragraph acquire_groups initial_scanner ?h) = 1"
    using first h by blast
  have c3: "length (finalized_records acquire_groups initial_parser sample_doc)
            = length (filter (fast_header acquire_groups) sample_doc)"
    using first by blast
  have c4: "open_cmds ?p = 1"
    using first h' by blast
  have c5: "length (extract_fast acquire_groups sample_doc)
            \<le> length (filter (fast_header acquire_groups) sample_doc)"
    using first by blast
  have c6: "commands ?p = commands initial_parser"
    using first h' i(1) by blast
  have c7: "current_cmd ?p = map_option (new_cmd acquire_groups) (header_match acquire_groups ?h)
            \<and> state ?p = DESCRIPTION \<and> buffer ?p = []"
    using first h' by blast
  from c1 c2 c3 c4 c5 c6 c7 n n' m i
  have one: "length (extract_commands acquire_groups sample_doc) = 2
   \<and> sc_commands (scan_paragraph acquire_groups initial_scanner ?h) = close_scanner initial_scanner
   \<and> open_records (scan_paragraph acquire_groups initial_scanner ?h) = 1
   \<and> length (finalized_records acquire_groups initial_parser sample_doc) = 2
   \<and> open_cmds ?p = 1
   \<and> length (extract_fast acquire_groups sample_doc) \<le> 2
   \<and> commands ?p = []
   \<and> current_cmd ?p = Some (new_cmd acquire_groups ''ACQuire:STATE'')
   \<and> state ?p = DESCRIPTION \<and> buffer ?p = []"
    by simp
  have s: "map (\<lambda>kv. (fst kv, group (snd kv), description (snd kv)))
             (store (normalize_cmd acquire_groups
                (save_section acquire_groups DESCRIPTION [] (new_cmd acquire_groups ''ACQuire:STATE''))) [])
           = [(''ACQuire:STATE'', Some ''Acquisition'', Some [])]"
    by code_simp
  have "\<forall>c. current_cmd ?p = Some c \<longrightarrow>
          commands (process_paragraph acquire_groups ?p (header_para ''ACQuire:MODe''))
          = store (normalize_cmd acquire_groups (save_section acquire_groups (state ?p) (buffer ?p) c))
              (commands ?p)"
    using header_exclusivity [of acquire_groups sample_doc "header_para ''ACQuire:MODe''"
      initial_scanner ?p] h2 by blast
  with one s
  have two: "map (\<lambda>kv. (fst kv, group (snd kv), description (snd kv)))
         (commands (process_paragraph acquire_groups ?p (header_para ''ACQuire:MODe'')))
       = [(''ACQuire:STATE'', Some ''Acquisition'', Some [])]"
    by simp
  have "commands (process_paragraph acquire_groups initial_parser (body_para ''Table of Contents''))
        = commands initial_parser"
    using header_exclusivity [of acquire_groups sample_doc "body_para ''Table of Contents''"
      initial_scanner initial_parser] b by blast
  with i
  have three: "commands (process_paragraph acquire_groups initial_parser
                 (body_para ''Table of Contents'')) = []"
    by simp
  from one two three show ?thesis by simp
qed

lemma scan_unattached:
  "sc_current_cmd s = None \<Longrightarrow> \<not> classified_header cg para \<Longrightarrow> scan_paragraph cg s para = s"
  by (auto simp: scan_paragraph_def Let_def classified_header_def)

lemma process_unattached:
  "current_cmd p = None \<Longrightarrow> content_block cg para \<Longrightarrow> process_paragraph cg p para = p"
  by (auto simp: process_paragraph_def Let_def content_block_def capture_content_def)

text \<open>
  Claim C8. While no record is open, a content block leaves the state of the pass as it
  is, in \<open>extract_fast.py\<close> and in \<open>extract_commands\<close>: no record is created, and the pass
  goes on with the remaining blocks from the same state. The step functions are total:
  the step has no operation that can raise.
\<close>

theorem unattached_content_dropped:
  "(current_cmd p = None \<and> content_block cg para \<longrightarrow>
      process_paragraph cg p para = p
      \<and> foldl (process_paragraph cg) p (para # rest) = foldl (process_paragraph cg) p rest)
   \<and> (sc_current_cmd s = None \<and> \<not> classified_header cg para \<longrightarrow>
      scan_paragraph cg s para = s
      \<and> foldl (scan_paragraph cg) s (para # rest) = foldl (scan_paragraph cg) s rest)"
  by (simp add: scan_unattached process_unattached)

theorem unattached_content_dropped_witness:
  "process_paragraph acquire_groups initial_parser (body_para ''Table of Contents'') = initial_parser
   \<and> scan_paragraph acquire_groups initial_scanner (body_para ''Table of Contents'') = initial_scanner"
proof -
  have a: "current_cmd initial_parser = None" by (simp add: initial_parser_def)
  have b: "content_block acquire_groups (body_para ''Table of Contents'')" by code_simp
  have c: "sc_current_cmd initial_scanner = None" by (simp add: initial_scanner_def)
  have d: "\<not> classified_header acquire_groups (body_para ''Table of Contents'')" by code_simp
  from unattached_content_dropped [of initial_parser acquire_groups
      "body_para ''Table of Contents''" "[]" initial_scanner] a b c d
  show ?thesis by simp
qed

subsection \<open>The syntax splitter\<close>

lemma startswith_length: "startswith s sub \<Longrightarrow> length sub \<le> length s"
  by (induction s sub rule: startswith.induct) auto

lemma str_find_bound: "str_find s sub = Some i \<Longrightarrow> i + length sub \<le> length s"
proof (induction s arbitrary: i)
  case Nil
  then show ?case by (simp split: if_splits)
next
  case (Cons c cs)
  show ?case
  proof (cases "startswith (c # cs) sub")
    case True
    with Cons.prems have "i = 0" by simp
    with True show ?thesis using startswith_length [of "c # cs" sub] by simp
  next
    case False
    with Cons.prems obtain j where j: "str_find cs sub = Some j" "i = Suc j" by auto
    from Cons.IH [OF j(1)] j(2) show ?thesis by simp
  qed
qed

lemma count_from_skip: "count_from k s sub = count_from 0 (drop k s) sub"
proof (induction s arbitrary: k)
  case Nil
  show ?case by simp
next
  case (Cons c cs)
  show ?case
  proof (cases k)
    case 0
    then show ?thesis by simp
  next
    case (Suc m)
    with Cons.IH [of m] show ?thesis by simp
  qed
qed

lemma count_none: "str_find s sub = None \<Longrightarrow> count_from 0 s sub = 0"
  by (induction s) (auto split: if_splits)

lemma count_after_first:
  "sub \<noteq> [] \<Longrightarrow> str_find s sub = Some i \<Longrightarrow>
     count_from 0 s sub = Suc (count_from 0 (drop (i + length sub) s) sub)"
proof (induction s arbitrary: i)
  case Nil
  then show ?case by simp
next
  case (Cons c cs)
  show ?case
  proof (cases "startswith (c # cs) sub")
    case True
    with Cons.prems have i: "i = 0" by simp
    from Cons.prems(1) obtain n where n: "length sub = Suc n" by (cases sub) auto
    from True have "count_from 0 (c # cs) sub = Suc (count_from (length sub - 1) cs sub)" by simp
    also have "count_from (length sub - 1) cs sub = count_from 0 (drop (length sub - 1) cs) sub"
      by (rule count_from_skip)
    finally show ?thesis using i n by simp
  next
    case False
    with Cons.prems obtain j where j: "str_find cs sub = Some j" "i = Suc j" by auto
    from False have "count_from 0 (c # cs) sub = count_from 0 cs sub" by simp
    with Cons.IH [OF Cons.prems(1) j(1)] j(2) show ?thesis by simp
  qed
qed

lemma second_occurrence_found:
  assumes "hdr \<noteq> []" and "2 \<le> str_count s hdr"
  shows "\<exists>first_pos second_pos.
           str_find s hdr = Some first_pos
           \<and> str_find_from s hdr (first_pos + length hdr) = Some second_pos
           \<and> first_pos + length hdr \<le> second_pos
           \<and> second_occurrence s hdr = Some second_pos"
proof -
  from assms have c: "2 \<le> count_from 0 s hdr" by (simp add: str_count_def)
  then obtain i where i: "str_find s hdr = Some i"
    using count_none [of s hdr] by (cases "str_find s hdr") auto
  from count_after_first [OF assms(1) i] c
  have "1 \<le> count_from 0 (drop (i + length hdr) s) hdr" by simp
  then obtain j where j: "str_find (drop (i + length hdr) s) hdr = Some j"
    using count_none [of "drop (i + length hdr) s" hdr]
    by (cases "str_find (drop (i + length hdr) s) hdr") auto
  from str_find_bound [OF i] j
  have f: "str_find_from s hdr (i + length hdr) = Some (j + (i + length hdr))"
    by (simp add: str_find_from_def)
  from assms(1) have "0 < j + (i + length hdr)" by simp
  with assms i f have "second_occurrence s hdr = Some (j + (i + length hdr))"
    by (simp add: second_occurrence_def)
  with i f show ?thesis by simp
qed

lemma split_line_keeps_set: "fst forms \<noteq> [] \<Longrightarrow> fst (split_line cmd_key forms s0) = fst forms"
  by (auto simp: split_line_def Let_def keep_first_def split: option.splits prod.splits)

lemma split_line_keeps_query: "snd forms \<noteq> [] \<Longrightarrow> snd (split_line cmd_key forms s0) = snd forms"
  by (auto simp: split_line_def Let_def keep_first_def split: option.splits prod.splits)

lemma split_lines_keep_set:
  "fst forms \<noteq> [] \<Longrightarrow> fst (foldl (split_line cmd_key) forms ls) = fst forms"
  by (induction ls arbitrary: forms) (simp_all add: split_line_keeps_set)

lemma split_lines_keep_query:
  "snd forms \<noteq> [] \<Longrightarrow> snd (foldl (split_line cmd_key) forms ls) = snd forms"
  by (induction ls arbitrary: forms) (simp_all add: split_line_keeps_query)

lemma split_line_componentwise:
  "split_line k (ss, qs) l
   = (if ss = [] then set_candidate k l else ss, if qs = [] then query_candidate k l else qs)"
  by (auto simp: split_line_def Let_def keep_first_def set_candidate_def query_candidate_def
      split: option.splits prod.splits)

lemma split_fold:
  "foldl (split_line k) (ss, qs) ls
   = (if ss = [] then first_nonempty (map (set_candidate k) ls) else ss,
      if qs = [] then first_nonempty (map (query_candidate k) ls) else qs)"
proof (induction ls arbitrary: ss qs)
  case Nil
  show ?case by (simp add: first_nonempty_def)
next
  case (Cons l ls)
  show ?case
    unfolding foldl_Cons split_line_componentwise Cons.IH
    by (auto simp: first_nonempty_def)
qed

lemma split_syntax_first_nonempty:
  "split_syntax k ls
   = (first_nonempty (map (set_candidate k) ls), first_nonempty (map (query_candidate k) ls))"
  by (simp add: split_syntax_def split_fold)

lemma split_syntax_nonempty_lines:
  "fst (split_syntax k ls) \<noteq> [] \<or> snd (split_syntax k ls) \<noteq> [] \<Longrightarrow> ls \<noteq> []"
  by (auto simp: split_syntax_def)

lemma detect_command_type_forms:
  "(fst (split_syntax k ls) \<noteq> []
      \<longrightarrow> setSyntax (detect_command_type ls k) = Some (fst (split_syntax k ls)))
   \<and> (snd (split_syntax k ls) \<noteq> []
      \<longrightarrow> querySyntax (detect_command_type ls k) = Some (snd (split_syntax k ls)))"
  using split_syntax_nonempty_lines [of k ls]
  by (auto simp: detect_command_type_def Let_def)

lemma resolve_syntax_forms:
  "(snd (split_syntax k ls) \<noteq> [] \<longrightarrow> snd (resolve_syntax d k ls) = snd (split_syntax k ls))
   \<and> (\<not> is_query_only d k ls \<and> fst (split_syntax k ls) \<noteq> []
        \<longrightarrow> fst (resolve_syntax d k ls) = Some (fst (split_syntax k ls)))
   \<and> (is_query_only d k ls \<longrightarrow> fst (resolve_syntax d k ls) = None)"
  by (auto simp: resolve_syntax_def Let_def)

lemma keep_first_empty: "keep_first [] c = c"
  by (simp add: keep_first_def)

lemma split_at_second:
  assumes a1: "CHR ''?'' \<in> set (strip line)" and a2: "header_of cmd_key \<noteq> []"
    and a3: "2 \<le> str_count (strip line) (header_of cmd_key)"
  shows "\<exists>first_pos second_pos.
         str_find (strip line) (header_of cmd_key) = Some first_pos
         \<and> str_find_from (strip line) (header_of cmd_key) (first_pos + length (header_of cmd_key))
             = Some second_pos
         \<and> split_line cmd_key (set_syntax, query_syntax) line
             = (keep_first set_syntax (strip (take second_pos (strip line))),
                keep_first query_syntax (strip (drop second_pos (strip line))))
         \<and> set_candidate cmd_key line = strip (take second_pos (strip line))
         \<and> query_candidate cmd_key line = strip (drop second_pos (strip line))"
proof -
  from second_occurrence_found [OF a2 a3] obtain fp sp where
    f: "str_find (strip line) (header_of cmd_key) = Some fp"
    "str_find_from (strip line) (header_of cmd_key) (fp + length (header_of cmd_key)) = Some sp"
    "second_occurrence (strip line) (header_of cmd_key) = Some sp"
    by blast
  from a1 have ne: "strip line \<noteq> []" by auto
  from f ne a1 have s: "split_line cmd_key forms line
               = (keep_first (fst forms) (strip (take sp (strip line))),
                  keep_first (snd forms) (strip (drop sp (strip line))))" for forms
    by (simp add: split_line_def Let_def)
  from s [of "(set_syntax, query_syntax)"] s [of "([], [])"] f(1,2) show ?thesis
    by (simp add: set_candidate_def query_candidate_def keep_first_empty)
qed

text \<open>
  Claim C1, as stated: across all of a record's syntax lines the first non-empty set form
  wins. In \<open>extract_fast.py\<close> a record that the loop's caller judges query-only loses the
  set form that the loop resolved: the key \<open>FOO:BAR?\<close> with the line
  \<open>FOO:BAR {ON|OFF} FOO:BAR?\<close> resolves the set form \<open>FOO:BAR {ON|OFF}\<close> in the loop and
  ends with no set form, and so does the key \<open>FOO:BAR\<close> when the description says
  \<open>(Query Only)\<close>.
\<close>

theorem query_only_discards_set_form:
  "fst (split_syntax ''FOO:BAR?'' [''FOO:BAR {ON|OFF} FOO:BAR?'']) = ''FOO:BAR {ON|OFF}''
   \<and> resolve_syntax [] ''FOO:BAR?'' [''FOO:BAR {ON|OFF} FOO:BAR?''] = (None, ''FOO:BAR?'')
   \<and> resolve_syntax ''Returns the state (Query Only).'' ''FOO:BAR'' [''FOO:BAR {ON|OFF} FOO:BAR?'']
       = (None, ''FOO:BAR?'')"
  by code_simp

text \<open>
  Claim C1, amended: a syntax line that contains \<open>?\<close> and in which the header (the command
  key up to its first space or \<open>?\<close>) occurs at least twice is split at the second
  occurrence of the header: the trimmed text before it is the line's candidate set form,
  the trimmed text from it on the line's candidate query form, and each is taken when it
  is not empty and the form is not resolved yet. Over any further lines a resolved set
  form and a resolved query form stay as they are, so the loop returns the first non-empty
  candidate set form and the first non-empty candidate query form of the lines.
  \<open>detect_command_type\<close> returns these forms when they are not empty. \<open>extract_fast.py\<close>
  returns the query form when it is not empty, and the set form when it is not empty and
  the record is not judged query-only; for a record judged query-only (the description
  says so, or the key ends in \<open>?\<close> and every non-blank syntax line contains \<open>?\<close>) it
  returns no set form.
\<close>

theorem split_at_second_header:
  "(CHR ''?'' \<in> set (strip line) \<and> header_of cmd_key \<noteq> []
      \<and> 2 \<le> str_count (strip line) (header_of cmd_key) \<longrightarrow>
      (\<exists>first_pos second_pos.
         str_find (strip line) (header_of cmd_key) = Some first_pos
         \<and> str_find_from (strip line) (header_of cmd_key) (first_pos + length (header_of cmd_key))
             = Some second_pos
         \<and> split_line cmd_key (set_syntax, query_syntax) line
             = (keep_first set_syntax (strip (take second_pos (strip line))),
                keep_first query_syntax (strip (drop second_pos (strip line))))
         \<and> set_candidate cmd_key line = strip (take second_pos (strip line))
         \<and> query_candidate cmd_key line = strip (drop second_pos (strip line))))
   \<and> (fst forms \<noteq> [] \<longrightarrow> fst (foldl (split_line cmd_key) forms ls) = fst forms)
   \<and> (snd forms \<noteq> [] \<longrightarrow> snd (foldl (split_line cmd_key) forms ls) = snd forms)
   \<and> split_syntax cmd_key ls
       = (first_nonempty (map (set_candidate cmd_key) ls),
          first_nonempty (map (query_candidate cmd_key) ls))
   \<and> (fst (split_syntax cmd_key ls) \<noteq> []
        \<longrightarrow> setSyntax (detect_command_type ls cmd_key) = Some (fst (split_syntax cmd_key ls)))
   \<and> (snd (split_syntax cmd_key ls) \<noteq> []
        \<longrightarrow> querySyntax (detect_command_type ls cmd_key) = Some (snd (split_syntax cmd_key ls)))
   \<and> (snd (split_syntax cmd_key ls) \<noteq> []
        \<longrightarrow> snd (resolve_syntax desc cmd_key ls) = snd (split_syntax cmd_key ls))
   \<and> (\<not> is_query_only desc cmd_key ls \<and> fst (split_syntax cmd_key ls) \<noteq> []
        \<longrightarrow> fst (resolve_syntax desc cmd_key ls) = Some (fst (split_syntax cmd_key ls)))
   \<and> (is_query_only desc cmd_key ls \<longrightarrow> fst (resolve_syntax desc cmd_key ls) = None)"
proof -
  have a: "CHR ''?'' \<in> set (strip line) \<and> header_of cmd_key \<noteq> []
      \<and> 2 \<le> str_count (strip line) (header_of cmd_key) \<longrightarrow>
      (\<exists>first_pos second_pos.
         str_find (strip line) (header_of cmd_key) = Some first_pos
         \<and> str_find_from (strip line) (header_of cmd_key) (first_pos + length (header_of cmd_key))
             = Some second_pos
         \<and> split_line cmd_key (set_syntax, query_syntax) line
             = (keep_first set_syntax (strip (take second_pos (strip line))),
                keep_first query_syntax (strip (drop second_pos (strip line))))
         \<and> set_candidate cmd_key line = strip (take second_pos (strip line))
         \<and> query_candidate cmd_key line = strip (drop second_pos (strip line)))"
    using split_at_second [of line cmd_key set_syntax query_syntax] by blast
  have b: "fst forms \<noteq> [] \<longrightarrow> fst (foldl (split_line cmd_key) forms ls) = fst forms"
    using split_lines_keep_set by blast
  have c: "snd forms \<noteq> [] \<longrightarrow> snd (foldl (split_line cmd_key) forms ls) = snd forms"
    using split_lines_keep_query by blast
  note d = detect_command_type_forms [of cmd_key ls]
  note r = resolve_syntax_forms [of cmd_key ls desc]
  show ?thesis
    apply (intro conjI)
    apply (rule a)
    apply (rule b)
    apply (rule c)
    apply (rule split_syntax_first_nonempty)
    apply (rule d [THEN conjunct1])
    apply (rule d [THEN conjunct2])
    apply (rule r [THEN conjunct1])
    apply (rule r [THEN conjunct2, THEN conjunct1])
    apply (rule r [THEN conjunct2, THEN conjunct2])
    done
qed

theorem split_at_second_header_witness:
  "split_line ''ACQuire:STATE'' ([], []) ''ACQuire:STATE {ON|OFF} ACQuire:STATE?''
     = (''ACQuire:STATE {ON|OFF}'', ''ACQuire:STATE?'')
   \<and> fst (foldl (split_line ''ACQuire:STATE'') (''ACQuire:STATE {ON|OFF}'', ''ACQuire:STATE?'')
            [''ACQuire:STATE <NR1>'']) = ''ACQuire:STATE {ON|OFF}''
   \<and> snd (foldl (split_line ''ACQuire:STATE'') (''ACQuire:STATE {ON|OFF}'', ''ACQuire:STATE?'')
            [''ACQuire:STATE <NR1>'']) = ''ACQuire:STATE?''
   \<and> split_syntax ''ACQuire:STATE'' [''ACQuire:STATE {ON|OFF} ACQuire:STATE?'', ''ACQuire:STATE <NR1>'']
       = (''ACQuire:STATE {ON|OFF}'', ''ACQuire:STATE?'')
   \<and> setSyntax (detect_command_type
         [''ACQuire:STATE {ON|OFF} ACQuire:STATE?'', ''ACQuire:STATE <NR1>''] ''ACQuire:STATE'')
       = Some ''ACQuire:STATE {ON|OFF}''
   \<and> querySyntax (detect_command_type
         [''ACQuire:STATE {ON|OFF} ACQuire:STATE?'', ''ACQuire:STATE <NR1>''] ''ACQuire:STATE'')
       = Some ''ACQuire:STATE?''
   \<and> resolve_syntax [] ''ACQuire:STATE''
         [''ACQuire:STATE {ON|OFF} ACQuire:STATE?'', ''ACQuire:STATE <NR1>'']
       = (Some ''ACQuire:STATE {ON|OFF}'', ''ACQuire:STATE?'')
   \<and> fst (resolve_syntax ''Query only: returns the state (Query Only).'' ''ACQuire:STATE''
         [''ACQuire:STATE {ON|OFF} ACQuire:STATE?'', ''ACQuire:STATE <NR1>'']) = None"
proof -
  let ?L = "''ACQuire:STATE {ON|OFF} ACQuire:STATE?''"
  let ?K = "''ACQuire:STATE''"
  let ?F = "(''ACQuire:STATE {ON|OFF}'', ''ACQuire:STATE?'')"
  let ?ls = "[?L, ''ACQuire:STATE <NR1>'']"
  let ?D = "''Query only: returns the state (Query Only).''"
  have h: "CHR ''?'' \<in> set (strip ?L) \<and> header_of ?K \<noteq> []
             \<and> 2 \<le> str_count (strip ?L) (header_of ?K)"
    by code_simp
  have e1: "str_find (strip ?L) (header_of ?K) = Some 0" by code_simp
  have e2: "str_find_from (strip ?L) (header_of ?K) (0 + length (header_of ?K)) = Some 23"
    by code_simp
  have e3: "(keep_first [] (strip (take 23 (strip ?L))), keep_first [] (strip (drop 23 (strip ?L))))
              = (''ACQuire:STATE {ON|OFF}'', ''ACQuire:STATE?'')"
    by code_simp
  have e4: "(first_nonempty (map (set_candidate ?K) ?ls), first_nonempty (map (query_candidate ?K) ?ls))
              = ?F"
    by code_simp
  have q: "\<not> is_query_only [] ?K ?ls" by code_simp
  have q': "is_query_only ?D ?K ?ls" by code_simp
  have f: "fst ?F \<noteq> []" "snd ?F \<noteq> []" by simp_all
  note t = split_at_second_header [where line = ?L and cmd_key = ?K and set_syntax = "[]"
      and query_syntax = "[]" and forms = ?F and ls = "[''ACQuire:STATE <NR1>'']"]
  from t h obtain fp sp where
    a: "str_find (strip ?L) (header_of ?K) = Some fp"
    and b: "str_find_from (strip ?L) (header_of ?K) (fp + length (header_of ?K)) = Some sp"
    and c: "split_line ?K ([], []) ?L
              = (keep_first [] (strip (take sp (strip ?L))), keep_first [] (strip (drop sp (strip ?L))))"
    by blast
  from a e1 have "fp = 0" by simp
  with b e2 have "sp = 23" by simp
  with c e3 have one: "split_line ?K ([], []) ?L = ?F"
    by simp
  from t f have two: "fst (foldl (split_line ?K) ?F [''ACQuire:STATE <NR1>'']) = fst ?F"
    and three: "snd (foldl (split_line ?K) ?F [''ACQuire:STATE <NR1>'']) = snd ?F" by blast+
  note u = split_at_second_header [where cmd_key = ?K and ls = ?ls and desc = "[]"]
  from u have "split_syntax ?K ?ls
     = (first_nonempty (map (set_candidate ?K) ?ls), first_nonempty (map (query_candidate ?K) ?ls))"
    by blast
  with e4 have four: "split_syntax ?K ?ls = ?F" by simp
  then have g: "fst (split_syntax ?K ?ls) \<noteq> []" "snd (split_syntax ?K ?ls) \<noteq> []" by simp_all
  from u g have "setSyntax (detect_command_type ?ls ?K) = Some (fst (split_syntax ?K ?ls))"
    and "querySyntax (detect_command_type ?ls ?K) = Some (snd (split_syntax ?K ?ls))"
    by blast+
  with four have five: "setSyntax (detect_command_type ?ls ?K) = Some ''ACQuire:STATE {ON|OFF}''"
    and six: "querySyntax (detect_command_type ?ls ?K) = Some ''ACQuire:STATE?''"
    by simp_all
  from u g q have "fst (resolve_syntax [] ?K ?ls) = Some (fst (split_syntax ?K ?ls))"
    and "snd (resolve_syntax [] ?K ?ls) = snd (split_syntax ?K ?ls)"
    by blast+
  with four have seven: "resolve_syntax [] ?K ?ls = (Some ''ACQuire:STATE {ON|OFF}'', ''ACQuire:STATE?'')"
    by (simp add: prod_eq_iff)
  from split_at_second_header [where cmd_key = ?K and ls = ?ls and desc = ?D] q'
  have eight: "fst (resolve_syntax ?D ?K ?ls) = None" by blast
  from one two three four five six seven eight show ?thesis by simp
qed

subsection \<open>The example splitter\<close>

text \<open>
  Claim C9, as stated: for the example line of Scenario E the splitter returns the snippet
  that ends in \<open>might return TRUE\<close>. Neither the splitter of \<open>post_process\<close> nor the one
  of \<open>save_current_section\<close> returns that snippet.
\<close>

theorem scenario_e_snippet_counterexample:
  "fst (split_example scenario_e)
     \<noteq> ''SEARCH:SEARCH1:TRIGger:A:LOGIc:WHEn FALSE might return TRUE''
   \<and> ex_scpi (parse_example scenario_e)
     \<noteq> ''SEARCH:SEARCH1:TRIGger:A:LOGIc:WHEn FALSE might return TRUE''"
  by code_simp

text \<open>
  Claim C9, amended: the line passes \<open>validate_examples\<close>, and both splitters cut it in
  front of \<open>might\<close>: the snippet is \<open>SEARCH:SEARCH1:TRIGger:A:LOGIc:WHEn FALSE\<close>, the
  description \<open>might return TRUE indicating the search criteria\<close>.
\<close>

theorem scenario_e_split:
  "validate_examples [scenario_e] ''SEARCH:SEARCH<x>:TRIGger:A:LOGIc:WHEn'' = [scenario_e]
   \<and> split_example scenario_e
       = (''SEARCH:SEARCH1:TRIGger:A:LOGIc:WHEn FALSE'',
          ''might return TRUE indicating the search criteria'')
   \<and> parse_example scenario_e
       = \<lparr>ex_scpi = ''SEARCH:SEARCH1:TRIGger:A:LOGIc:WHEn FALSE'',
          ex_description = ''might return TRUE indicating the search criteria''\<rparr>"
  by code_simp

subsection \<open>Parameter inference\<close>

text \<open>
  Claim C5, as stated: at most one enumeration parameter comes from the brace groups, the
  first matching group winning. \<open>detect_params\<close> has no such limit: a syntax with two brace
  groups gives two enumeration parameters.
\<close>

theorem detect_params_two_brace_groups:
  "map (\<lambda>p. (param_name p, param_type p, param_options p))
     (detect_params ''FOO:BAR'' [''FOO:BAR {A|B} {C|D}''] None [])
   = [(''value'', Enumeration, Some [''A'', ''B'']), (''value'', Enumeration, Some [''C'', ''D''])]"
  by code_simp

lemma header_param_path: "list_all (\<lambda>p. \<not> is_value_param p \<and> \<not> is_enumeration p) (header_param pfx)"
  by (simp add: header_param_def Let_def is_value_param_def is_enumeration_def path_param_def path_names_def)

lemma list_all_concat_map: "(\<And>x. list_all P (f x)) \<Longrightarrow> list_all P (concat (map f xs))"
  by (induction xs) auto

lemma header_params_path: "list_all (\<lambda>p. \<not> is_value_param p \<and> \<not> is_enumeration p) (header_params h)"
  unfolding header_params_def
  by (rule list_all_concat_map) (simp add: header_param_path split: prod.splits)

lemma enum_param_enum: "is_enumeration (enum_param n opts d)"
  by (simp add: enum_param_def is_enumeration_def)

lemma trailing_source_enum: "list_all is_enumeration (trailing_source syns)"
  by (induction syns) (auto simp: Let_def enum_param_enum split: option.splits)

lemma trailing_source_le: "length (trailing_source syns) \<le> 1"
  by (induction syns) (auto simp: Let_def split: option.splits)

lemma brace_param_enum: "list_all is_enumeration (brace_param m)"
  by (simp add: brace_param_def Let_def enum_param_enum)

lemma brace_param_le: "length (brace_param m) \<le> 1"
  by (simp add: brace_param_def Let_def)

lemma brace_params_enum: "list_all is_enumeration (brace_params full)"
  unfolding brace_params_def by (rule list_all_concat_map) (rule brace_param_enum)

lemma brace_params_le: "length (brace_params full) \<le> length (findall brace_group full)"
proof -
  have "length (concat (map brace_param xs)) \<le> length xs" for xs
  proof (induction xs)
    case Nil
    show ?case by simp
  next
    case (Cons x xs)
    with brace_param_le [of x] show ?case by simp
  qed
  then show ?thesis by (simp add: brace_params_def)
qed

lemma placeholder_params_le: "length (placeholder_params ps full d) \<le> 1"
  by (simp add: placeholder_params_def)

lemma placeholder_params_value: "list_all is_value_param (placeholder_params ps full d)"
  by (simp add: placeholder_params_def is_value_param_def value_param_def path_names_def)

lemma placeholder_params_gate: "placeholder_params ps full d \<noteq> [] \<Longrightarrow> \<not> has_enum_arg ps"
  by (auto simp: placeholder_params_def)

lemma arguments_params_le: "length (arguments_params a) \<le> 1"
  by (simp add: arguments_params_def Let_def)

lemma arguments_params_value: "list_all is_value_param (arguments_params a)"
  by (simp add: arguments_params_def Let_def is_value_param_def bare_param_def path_names_def)

lemma enum_not_value: "is_enumeration p \<Longrightarrow> \<not> is_value_param p"
  by (simp add: is_enumeration_def is_value_param_def)

lemma filter_none: "list_all (\<lambda>p. \<not> P p) xs \<Longrightarrow> filter P xs = []"
  by (induction xs) auto

lemma list_all_mono': "list_all P xs \<Longrightarrow> (\<And>x. P x \<Longrightarrow> Q x) \<Longrightarrow> list_all Q xs"
  by (induction xs) auto

lemma syntax_params_values:
  "filter is_value_param (syntax_params (header_params h) syn d)
   = (if syn = [] then []
      else placeholder_params (header_params h @ trailing_source syn @ brace_params (join '' '' syn))
             (join '' '' syn) d)"
proof -
  have h: "filter is_value_param (header_params h) = []"
    by (rule filter_none) (rule list_all_mono' [OF header_params_path], simp)
  have t: "filter is_value_param (trailing_source syn) = []"
    by (rule filter_none) (rule list_all_mono' [OF trailing_source_enum], simp add: enum_not_value)
  have b: "filter is_value_param (brace_params full) = []" for full
    by (rule filter_none) (rule list_all_mono' [OF brace_params_enum], simp add: enum_not_value)
  have p: "filter is_value_param (placeholder_params ps full d) = placeholder_params ps full d" for ps full
    using placeholder_params_value [of ps full d] by (simp add: list_all_iff filter_id_conv)
  show ?thesis
    by (simp add: syntax_params_def Let_def h t b p)
qed

lemma header_params_no_enum: "list_all (\<lambda>p. \<not> is_enumeration p) (header_params h)"
  by (rule list_all_mono' [OF header_params_path]) simp

lemma trailing_source_name: "list_all (\<lambda>p. param_name p = ''source'') (trailing_source syns)"
  by (induction syns) (auto simp: Let_def enum_param_def split: option.splits)

lemma brace_param_name:
  "list_all (\<lambda>p. param_name p \<in> set [''state'', ''source'', ''value'']) (brace_param m)"
  by (simp add: brace_param_def Let_def enum_param_def)

lemma brace_params_name:
  "list_all (\<lambda>p. param_name p \<in> set [''state'', ''source'', ''value'']) (brace_params full)"
  unfolding brace_params_def by (rule list_all_concat_map) (rule brace_param_name)

lemma enums_named_source:
  assumes "\<not> has_enum_arg (header_params h @ trailing_source syn @ brace_params full)"
  shows "list_all (\<lambda>q. is_enumeration q \<longrightarrow> param_name q = ''source'')
           (header_params h @ trailing_source syn @ brace_params full)"
proof -
  have a: "list_all (\<lambda>q. is_enumeration q \<longrightarrow> param_name q = ''source'') (header_params h)"
    by (rule list_all_mono' [OF header_params_no_enum]) simp
  have b: "list_all (\<lambda>q. is_enumeration q \<longrightarrow> param_name q = ''source'') (trailing_source syn)"
    by (rule list_all_mono' [OF trailing_source_name]) simp
  from assms have "\<not> has_enum_arg (brace_params full)"
    by (auto simp: has_enum_arg_def list_ex_iff)
  then have n: "\<forall>q \<in> set (brace_params full). param_name q \<in> set path_names"
    using brace_params_enum [of full]
    by (auto simp: has_enum_arg_def list_ex_iff list_all_iff is_enumeration_def)
  have c: "list_all (\<lambda>q. is_enumeration q \<longrightarrow> param_name q = ''source'') (brace_params full)"
    unfolding list_all_iff
  proof (intro ballI impI)
    fix q assume q: "q \<in> set (brace_params full)"
    with n have "param_name q \<in> set path_names" by blast
    moreover from q brace_params_name [of full]
    have "param_name q \<in> set [''state'', ''source'', ''value'']" by (simp add: list_all_iff)
    ultimately show "param_name q = ''source''" by (auto simp: path_names_def)
  qed
  from a b c show ?thesis by simp
qed

lemma detect_params_cases:
  "detect_params h syn args exs = arguments_params (or_empty args)
   \<or> detect_params h syn args exs = header_params h
   \<or> (\<exists>d. detect_params h syn args exs
         = (header_params h @ trailing_source syn @ brace_params (join '' '' syn))
           @ placeholder_params (header_params h @ trailing_source syn @ brace_params (join '' '' syn))
               (join '' '' syn) d)"
  by (auto simp: detect_params_def syntax_params_def Let_def)

lemma value_count_arguments: "length (filter is_value_param (arguments_params a)) \<le> 1"
  using arguments_params_le [of a] length_filter_le [of is_value_param "arguments_params a"]
  by linarith

lemma value_count_header: "filter is_value_param (header_params h) = []"
  by (rule filter_none) (rule list_all_mono' [OF header_params_path], simp)

lemma value_count_main:
  "filter is_value_param ((header_params h @ trailing_source syn @ brace_params full)
       @ placeholder_params ps full' d) = placeholder_params ps full' d"
proof -
  have t: "filter is_value_param (trailing_source syn) = []"
    by (rule filter_none) (rule list_all_mono' [OF trailing_source_enum], simp add: enum_not_value)
  have b: "filter is_value_param (brace_params full) = []"
    by (rule filter_none) (rule list_all_mono' [OF brace_params_enum], simp add: enum_not_value)
  have p: "filter is_value_param (placeholder_params ps full' d) = placeholder_params ps full' d"
    using placeholder_params_value [of ps full' d] by (simp add: list_all_iff filter_id_conv)
  show ?thesis by (simp add: value_count_header t b p)
qed

lemma detect_params_value_le: "length (filter is_value_param (detect_params h syn args exs)) \<le> 1"
proof -
  let ?ps = "header_params h @ trailing_source syn @ brace_params (join '' '' syn)"
  from detect_params_cases [of h syn args exs] consider
    (a) "detect_params h syn args exs = arguments_params (or_empty args)"
    | (b) "detect_params h syn args exs = header_params h"
    | (c) d where "detect_params h syn args exs = ?ps @ placeholder_params ?ps (join '' '' syn) d"
    by blast
  then show ?thesis
  proof cases
    case a
    show ?thesis unfolding a by (rule value_count_arguments)
  next
    case b
    show ?thesis unfolding b value_count_header by simp
  next
    case c
    show ?thesis unfolding c value_count_main by (rule placeholder_params_le)
  qed
qed

lemma detect_params_gate:
  "list_ex is_value_param (detect_params h syn args exs) \<Longrightarrow>
     list_all (\<lambda>q. is_enumeration q \<longrightarrow> param_name q = ''source'') (detect_params h syn args exs)"
proof -
  assume v: "list_ex is_value_param (detect_params h syn args exs)"
  let ?ps = "header_params h @ trailing_source syn @ brace_params (join '' '' syn)"
  from detect_params_cases [of h syn args exs] consider
    (a) "detect_params h syn args exs = arguments_params (or_empty args)"
    | (b) "detect_params h syn args exs = header_params h"
    | (c) d where "detect_params h syn args exs = ?ps @ placeholder_params ?ps (join '' '' syn) d"
    by blast
  then show ?thesis
  proof cases
    case a
    have "list_all (\<lambda>q. is_enumeration q \<longrightarrow> param_name q = ''source'') (arguments_params (or_empty args))"
      by (rule list_all_mono' [OF arguments_params_value]) (simp add: is_value_param_def is_enumeration_def)
    with a show ?thesis by simp
  next
    case b
    have "list_all (\<lambda>q. is_enumeration q \<longrightarrow> param_name q = ''source'') (header_params h)"
      by (rule list_all_mono' [OF header_params_no_enum]) simp
    with b show ?thesis by simp
  next
    case c
    from v have "list_ex is_value_param (?ps @ placeholder_params ?ps (join '' '' syn) d)"
      unfolding c .
    then have "filter is_value_param (?ps @ placeholder_params ?ps (join '' '' syn) d) \<noteq> []"
      unfolding list_ex_iff filter_empty_conv by blast
    then have ne: "placeholder_params ?ps (join '' '' syn) d \<noteq> []"
      unfolding value_count_main .
    then have "\<not> has_enum_arg ?ps" by (rule placeholder_params_gate)
    then have e: "list_all (\<lambda>q. is_enumeration q \<longrightarrow> param_name q = ''source'') ?ps"
      by (rule enums_named_source)
    have "list_all (\<lambda>q. is_enumeration q \<longrightarrow> param_name q = ''source'')
            (placeholder_params ?ps (join '' '' syn) d)"
      by (rule list_all_mono' [OF placeholder_params_value]) (simp add: is_value_param_def is_enumeration_def)
    with e show ?thesis unfolding c by simp
  qed
qed


lemma add_param_value: "arg_inv st \<Longrightarrow> arg_inv (add_param ''value'' p st)"
  by (auto simp: arg_inv_def add_param_def)

lemma add_param_other: "arg_inv st \<Longrightarrow> \<not> is_argument_param p \<Longrightarrow> arg_inv (add_param k p st)"
  by (auto simp: arg_inv_def add_param_def)

lemma mnemonic_names:
  "entry \<in> set MNEMONIC_DEFINITIONS \<Longrightarrow> fst (snd entry) \<notin> set [''value'', ''source'']"
  by (auto simp: MNEMONIC_DEFINITIONS_def)

lemma mnemonic_step_inv:
  "arg_inv st \<Longrightarrow> entry \<in> set MNEMONIC_DEFINITIONS \<Longrightarrow> arg_inv (mnemonic_step cmd_key entry st)"
proof -
  assume i: "arg_inv st" and e: "entry \<in> set MNEMONIC_DEFINITIONS"
  obtain pat pname desc where en: "entry = (pat, pname, desc)" by (cases entry) auto
  from mnemonic_names [OF e] en have "pname \<notin> set [''value'', ''source'']" by simp
  then have "\<not> is_argument_param (fast_param pname Integer (Some (PInt 1)) None (Some desc))"
    by (simp add: is_argument_param_def fast_param_def)
  with i en show ?thesis by (simp add: mnemonic_step_def add_param_other)
qed

lemma mnemonic_fold_inv:
  "arg_inv st \<Longrightarrow> set entries \<subseteq> set MNEMONIC_DEFINITIONS \<Longrightarrow>
     arg_inv (foldl (\<lambda>st entry. mnemonic_step cmd_key entry st) st entries)"
  by (induction entries arbitrary: st) (simp_all add: mnemonic_step_inv)

lemma header_enum_step_inv: "arg_inv st \<Longrightarrow> arg_inv (header_enum_step cmd_key st)"
  by (auto simp: header_enum_step_def is_argument_param_def fast_param_def
      intro!: add_param_other split: option.splits list.splits)

lemma numeric_step_inv: "arg_inv st \<Longrightarrow> arg_inv (numeric_step t st)"
  by (simp add: numeric_step_def add_param_value)

lemma qstring_step_inv: "arg_inv st \<Longrightarrow> arg_inv (qstring_step t st)"
  by (simp add: qstring_step_def add_param_value)

lemma brace_step_inv: "arg_inv st \<Longrightarrow> arg_inv (brace_step st g)"
  by (auto simp: brace_step_def add_param_value split: list.splits prod.splits)

lemma brace_fold_inv: "arg_inv st \<Longrightarrow> arg_inv (foldl brace_step st gs)"
  by (induction gs arbitrary: st) (simp_all add: brace_step_inv)

lemma brace_steps_inv: "arg_inv st \<Longrightarrow> arg_inv (brace_steps ls st)"
  by (simp add: brace_steps_def brace_fold_inv)

lemma example_step_inv: "arg_inv st \<Longrightarrow> arg_inv (example_step exs st)"
  by (simp add: example_step_def add_param_value)

lemma description_step_inv: "arg_inv st \<Longrightarrow> arg_inv (description_step k d ls a st)"
  by (simp add: description_step_def add_param_value)

lemma fast_params_argument_le: "length (filter is_argument_param (fast_params cmd_key c)) \<le> 1"
proof -
  have "arg_inv ([], [])" by (simp add: arg_inv_def)
  then have "arg_inv (foldl (\<lambda>st entry. mnemonic_step cmd_key entry st) ([], []) MNEMONIC_DEFINITIONS)"
    by (rule mnemonic_fold_inv) simp
  then have "arg_inv (description_step cmd_key (or_empty (description c))
      (set_syntax_lines_of cmd_key (cmd_syntax c)) (or_empty (arguments c))
      (example_step (examples c)
        (brace_steps (set_syntax_lines_of cmd_key (cmd_syntax c))
          (qstring_step (join '' '' (set_syntax_lines_of cmd_key (cmd_syntax c)) @ '' '' @ or_empty (arguments c))
            (numeric_step (join '' '' (set_syntax_lines_of cmd_key (cmd_syntax c)) @ '' '' @ or_empty (arguments c))
              (header_enum_step cmd_key
                (foldl (\<lambda>st entry. mnemonic_step cmd_key entry st) ([], []) MNEMONIC_DEFINITIONS)))))))"
    by (intro description_step_inv example_step_inv brace_steps_inv qstring_step_inv
        numeric_step_inv header_enum_step_inv)
  then show ?thesis by (simp add: fast_params_def Let_def arg_inv_def)
qed


lemma expand_wildcards_nil: "expand_wildcards [] = []"
  by (simp add: expand_wildcards_def)

lemma brace_param_exact:
  "map param_options (brace_param m) = (if brace_options m \<noteq> [] then [Some (brace_options m)] else [])
   \<and> map param_type (brace_param m) = (if brace_options m \<noteq> [] then [Enumeration] else [])"
proof (cases "list_all placeholder_option (filter (\<lambda>o'. o' \<noteq> []) (map strip (split_char (CHR ''|'') m)))")
  case True
  then have "filter (\<lambda>o'. \<not> placeholder_option o') (filter (\<lambda>o'. o' \<noteq> []) (map strip (split_char (CHR ''|'') m))) = []"
    by (auto simp: filter_empty_conv list_all_iff)
  then have "brace_options m = []" by (simp add: brace_options_def expand_wildcards_nil)
  with True show ?thesis by (simp add: brace_param_def Let_def)
next
  case False
  then show ?thesis by (simp add: brace_param_def Let_def brace_options_def enum_param_def)
qed

lemma brace_params_exact:
  "map param_options (brace_params full)
     = map (\<lambda>m. Some (brace_options m)) (filter (\<lambda>m. brace_options m \<noteq> []) (findall brace_group full))
   \<and> map param_type (brace_params full)
     = map (\<lambda>m. Enumeration) (filter (\<lambda>m. brace_options m \<noteq> []) (findall brace_group full))"
proof -
  have "map param_options (concat (map brace_param ms))
          = map (\<lambda>m. Some (brace_options m)) (filter (\<lambda>m. brace_options m \<noteq> []) ms)
        \<and> map param_type (concat (map brace_param ms))
          = map (\<lambda>m. Enumeration) (filter (\<lambda>m. brace_options m \<noteq> []) ms)" for ms
    by (induction ms) (simp_all add: brace_param_exact)
  then show ?thesis by (simp add: brace_params_def)
qed

lemma if_true_eq: "x = (if c then a else b) \<Longrightarrow> c \<Longrightarrow> x = a"
  by simp

lemma if_false_eq: "x = (if c then a else b) \<Longrightarrow> \<not> c \<Longrightarrow> x = b"
  by simp

lemma detect_params_layout:
  "syn \<noteq> [] \<Longrightarrow>
     \<exists>rest. detect_params h syn args exs
              = header_params h @ trailing_source syn @ brace_params (join '' '' syn) @ rest
            \<and> length rest \<le> 1 \<and> list_all is_value_param rest"
proof -
  assume syn: "syn \<noteq> []"
  let ?full = "join '' '' syn"
  let ?ps = "header_params h @ trailing_source syn @ brace_params ?full"
  let ?pl = "placeholder_params ?ps ?full (example_default exs)"
  have sp: "syntax_params (header_params h) syn (example_default exs) = ?ps @ ?pl"
    using syn by (simp add: syntax_params_def Let_def)
  have d: "detect_params h syn args exs
      = (if ?ps @ ?pl = [] \<and> truthy args then arguments_params (or_empty args) else ?ps @ ?pl)"
    by (simp only: detect_params_def Let_def sp)
  show ?thesis
  proof (cases "?ps @ ?pl = [] \<and> truthy args")
    case True
    then have e: "header_params h @ trailing_source syn @ brace_params ?full = []" by simp
    have "detect_params h syn args exs = arguments_params (or_empty args)"
      by (rule if_true_eq [OF d True])
    also have "\<dots> = (header_params h @ trailing_source syn @ brace_params ?full)
                      @ arguments_params (or_empty args)"
      by (simp only: e append_Nil)
    finally have "detect_params h syn args exs
        = header_params h @ trailing_source syn @ brace_params ?full @ arguments_params (or_empty args)"
      by (simp only: append_assoc)
    with arguments_params_le arguments_params_value show ?thesis by blast
  next
    case False
    have "detect_params h syn args exs = ?ps @ ?pl"
      by (rule if_false_eq [OF d False])
    then have "detect_params h syn args exs
        = header_params h @ trailing_source syn @ brace_params ?full @ ?pl"
      by (simp only: append_assoc)
    with placeholder_params_le placeholder_params_value show ?thesis by blast
  qed
qed


text \<open>
  Claim C5, amended. For a non-empty syntax list \<open>detect_params\<close> emits the header
  path-parameters, then the trailing source, then the parameters of the brace groups, then
  at most one value-parameter (integer, float or string). The brace groups give one
  enumeration parameter for every group, not only the first, whose options are not empty
  after the options that begin with \<open><NR1>\<close>, \<open><NR2>\<close>, \<open><NR3>\<close>, \<open><QString>\<close> or
  \<open><Block>\<close> are removed and the wildcards are expanded; the parameter has exactly these
  options, and the parameters are in the order of the groups. In any result of
  \<open>detect_params\<close> at most one parameter is a value-parameter, and when there is one, every
  enumeration parameter emitted is named \<open>source\<close>. The derivation of \<open>extract_fast.py\<close>
  emits at most one parameter named \<open>value\<close> or \<open>source\<close>, so there at most one brace
  group gives a parameter.
\<close>

theorem value_parameter_limit:
  "length (filter is_value_param (detect_params h syn args exs)) \<le> 1
   \<and> (list_ex is_value_param (detect_params h syn args exs) \<longrightarrow>
        list_all (\<lambda>q. is_enumeration q \<longrightarrow> param_name q = ''source'')
          (detect_params h syn args exs))
   \<and> length (brace_params full) \<le> length (findall brace_group full)
   \<and> length (filter is_argument_param (fast_params cmd_key c)) \<le> 1
   \<and> map param_options (brace_params full)
       = map (\<lambda>m. Some (brace_options m))
           (filter (\<lambda>m. brace_options m \<noteq> []) (findall brace_group full))
   \<and> map param_type (brace_params full)
       = map (\<lambda>m. Enumeration)
           (filter (\<lambda>m. brace_options m \<noteq> []) (findall brace_group full))
   \<and> (syn \<noteq> [] \<longrightarrow>
        (\<exists>rest. detect_params h syn args exs
                  = header_params h @ trailing_source syn @ brace_params (join '' '' syn) @ rest
                \<and> length rest \<le> 1 \<and> list_all is_value_param rest))"
proof -
  have g: "list_ex is_value_param (detect_params h syn args exs) \<longrightarrow>
        list_all (\<lambda>q. is_enumeration q \<longrightarrow> param_name q = ''source'')
          (detect_params h syn args exs)"
    using detect_params_gate by blast
  have l: "syn \<noteq> [] \<longrightarrow>
        (\<exists>rest. detect_params h syn args exs
                  = header_params h @ trailing_source syn @ brace_params (join '' '' syn) @ rest
                \<and> length rest \<le> 1 \<and> list_all is_value_param rest)"
    using detect_params_layout [of syn h args exs] by blast
  note e = brace_params_exact [of full]
  show ?thesis
    apply (intro conjI)
    apply (rule detect_params_value_le)
    apply (rule g)
    apply (rule brace_params_le)
    apply (rule fast_params_argument_le)
    apply (rule e [THEN conjunct1])
    apply (rule e [THEN conjunct2])
    apply (rule l)
    done
qed

theorem value_parameter_limit_witness:
  "list_ex is_value_param (detect_params ''FOO:BAR'' [''FOO:BAR {CH<x>|<NR1>}''] None [])
   \<and> list_all (\<lambda>q. is_enumeration q \<longrightarrow> param_name q = ''source'')
         (detect_params ''FOO:BAR'' [''FOO:BAR {CH<x>|<NR1>}''] None [])
   \<and> length (filter is_value_param
         (detect_params ''FOO:BAR'' [''FOO:BAR {CH<x>|<NR1>}''] None [])) \<le> 1
   \<and> map param_options (brace_params ''FOO:BAR {A|<NR1>} {<NR1>|<NR2>} {x<NR1>} {C|D}'')
       = [Some [''A''], Some [''C'', ''D'']]
   \<and> map param_type (brace_params ''FOO:BAR {A|<NR1>} {<NR1>|<NR2>} {x<NR1>} {C|D}'')
       = [Enumeration, Enumeration]
   \<and> (\<exists>rest. detect_params ''FOO:BAR'' [''FOO:BAR {CH<x>|<NR1>}''] None []
                = header_params ''FOO:BAR'' @ trailing_source [''FOO:BAR {CH<x>|<NR1>}'']
                  @ brace_params (join '' '' [''FOO:BAR {CH<x>|<NR1>}'']) @ rest
              \<and> length rest \<le> 1 \<and> list_all is_value_param rest)"
proof -
  let ?F = "''FOO:BAR {A|<NR1>} {<NR1>|<NR2>} {x<NR1>} {C|D}''"
  have v: "list_ex is_value_param (detect_params ''FOO:BAR'' [''FOO:BAR {CH<x>|<NR1>}''] None [])"
    by code_simp
  have o: "map (\<lambda>m. Some (brace_options m))
             (filter (\<lambda>m. brace_options m \<noteq> []) (findall brace_group ?F))
           = [Some [''A''], Some [''C'', ''D'']]"
    by code_simp
  have t: "map (\<lambda>m. Enumeration)
             (filter (\<lambda>m. brace_options m \<noteq> []) (findall brace_group ?F))
           = [Enumeration, Enumeration]"
    by code_simp
  have n: "[''FOO:BAR {CH<x>|<NR1>}''] \<noteq> []" by simp
  note w = value_parameter_limit [where h = "''FOO:BAR''" and syn = "[''FOO:BAR {CH<x>|<NR1>}'']"
      and args = None and exs = "[]" and full = ?F]
  from w v have a: "list_all (\<lambda>q. is_enumeration q \<longrightarrow> param_name q = ''source'')
         (detect_params ''FOO:BAR'' [''FOO:BAR {CH<x>|<NR1>}''] None [])"
    by blast
  from w have b: "length (filter is_value_param
         (detect_params ''FOO:BAR'' [''FOO:BAR {CH<x>|<NR1>}''] None [])) \<le> 1"
    by blast
  from w have "map param_options (brace_params ?F)
       = map (\<lambda>m. Some (brace_options m))
           (filter (\<lambda>m. brace_options m \<noteq> []) (findall brace_group ?F))"
    by blast
  with o have c: "map param_options (brace_params ?F) = [Some [''A''], Some [''C'', ''D'']]"
    by simp
  from w have "map param_type (brace_params ?F)
       = map (\<lambda>m. Enumeration)
           (filter (\<lambda>m. brace_options m \<noteq> []) (findall brace_group ?F))"
    by blast
  with t have d: "map param_type (brace_params ?F) = [Enumeration, Enumeration]"
    by simp
  from w n have e: "\<exists>rest. detect_params ''FOO:BAR'' [''FOO:BAR {CH<x>|<NR1>}''] None []
                = header_params ''FOO:BAR'' @ trailing_source [''FOO:BAR {CH<x>|<NR1>}'']
                  @ brace_params (join '' '' [''FOO:BAR {CH<x>|<NR1>}'']) @ rest
              \<and> length rest \<le> 1 \<and> list_all is_value_param rest"
    by blast
  from v a b c d e show ?thesis by blast
qed

end
